theory Spec2Isabelle
  imports Main
begin

section \<open>Python strings\<close>

text \<open>
  A Python \<open>str\<close> is a sequence of code points. It is modelled as a \<open>string\<close> whose
  characters stand for the code points 0..255 (the Latin-1 block), one \<open>char\<close> per code
  point, so that \<open>length\<close> is Python's \<open>len\<close>. The character classes below are the
  ones CPython uses on that range for \<open>str.isspace\<close> / \<open>str.strip\<close> / the regex class
  \<open>\s\<close>, for the regex class \<open>\w\<close>, and for \<open>str.lower\<close>.
\<close>

definition is_space :: "char \<Rightarrow> bool" where
  "is_space c =
     (let n = (of_char c :: nat)
      in (9 \<le> n \<and> n \<le> 13) \<or> (28 \<le> n \<and> n \<le> 32) \<or> n = 133 \<or> n = 160)"

definition is_word :: "char \<Rightarrow> bool" where
  "is_word c =
     (let n = (of_char c :: nat)
      in (48 \<le> n \<and> n \<le> 57) \<or> (65 \<le> n \<and> n \<le> 90) \<or> n = 95 \<or> (97 \<le> n \<and> n \<le> 122)
         \<or> n = 170 \<or> n = 178 \<or> n = 179 \<or> n = 181 \<or> n = 185 \<or> n = 186
         \<or> (188 \<le> n \<and> n \<le> 190) \<or> (192 \<le> n \<and> n \<le> 214)
         \<or> (216 \<le> n \<and> n \<le> 246) \<or> (248 \<le> n \<and> n \<le> 255))"

definition char_lower :: "char \<Rightarrow> char" where
  "char_lower c =
     (let n = (of_char c :: nat)
      in if (65 \<le> n \<and> n \<le> 90) \<or> (192 \<le> n \<and> n \<le> 222 \<and> n \<noteq> 215)
         then char_of (n + 32) else c)"

text \<open>\<open>s.lower()\<close>\<close>

definition lower :: "string \<Rightarrow> string" where
  "lower s = map char_lower s"

text \<open>\<open>s.strip()\<close>: leading and trailing whitespace removed.\<close>

definition strip :: "string \<Rightarrow> string" where
  "strip s = rev (dropWhile is_space (rev (dropWhile is_space s)))"

text \<open>\<open>s.replace(' ', '-')\<close>: every space character becomes a hyphen.\<close>

definition replace_space_hyphen :: "string \<Rightarrow> string" where
  "replace_space_hyphen s = map (\<lambda>c. if c = CHR '' '' then CHR ''-'' else c) s"

text \<open>\<open>w in s\<close> on strings: \<open>w\<close> occurs in \<open>s\<close> at some position.\<close>

definition str_in :: "string \<Rightarrow> string \<Rightarrow> bool" where
  "str_in w s = list_ex (\<lambda>i. take (length w) (drop i s) = w) [0..<Suc (length s)]"

text \<open>\<open>str(n)\<close> for a non-negative integer: its decimal digits.\<close>

fun str_of_nat :: "nat \<Rightarrow> string" where
  "str_of_nat n =
     (if n < 10 then [char_of (48 + n)]
      else str_of_nat (n div 10) @ [char_of (48 + n mod 10)])"

declare str_of_nat.simps [simp del]

section \<open>Regular expressions of the tag table\<close>

text \<open>
  The fragment of Python's \<open>re\<close> syntax that the pattern table of \<open>extract_tags\<close> uses:
  literal text, concatenation, alternation, the word boundary \<open>\b\<close> and \<open>.*\<close> (any run
  of characters other than a newline).
\<close>

datatype regex =
    Lit string
  | Cat regex regex
  | Alt regex regex
  | WordB
  | DotStar

text \<open>Is there a word character just before / at position \<open>i\<close> of \<open>s\<close>?\<close>

definition word_before :: "string \<Rightarrow> nat \<Rightarrow> bool" where
  "word_before s i = (0 < i \<and> i \<le> length s \<and> is_word (s ! (i - 1)))"

definition word_at :: "string \<Rightarrow> nat \<Rightarrow> bool" where
  "word_at s i = (i < length s \<and> is_word (s ! i))"

text \<open>
  \<open>match_ends r s i\<close>: the positions at which a match of \<open>r\<close> that starts at position
  \<open>i\<close> of \<open>s\<close> can end (the backtracking matcher's successes).
\<close>

fun match_ends :: "regex \<Rightarrow> string \<Rightarrow> nat \<Rightarrow> nat list" where
  "match_ends (Lit w) s i =
     (if i \<le> length s \<and> take (length w) (drop i s) = w then [i + length w] else [])"
| "match_ends (Cat a b) s i = concat (map (match_ends b s) (match_ends a s i))"
| "match_ends (Alt a b) s i = match_ends a s i @ match_ends b s i"
| "match_ends WordB s i = (if word_before s i \<noteq> word_at s i then [i] else [])"
| "match_ends DotStar s i =
     (if i \<le> length s
      then [i..<Suc (i + length (takeWhile (\<lambda>c. c \<noteq> CHR 0x0A) (drop i s)))]
      else [])"

text \<open>\<open>re.search(pattern, s)\<close> as a truth value: some position starts a match.\<close>

definition re_search :: "regex \<Rightarrow> string \<Rightarrow> bool" where
  "re_search r s = list_ex (\<lambda>i. match_ends r s i \<noteq> []) [0..<Suc (length s)]"

text \<open>\<open>\bw\b\<close> and \<open>\b(w1|...|wn)\b\<close>\<close>

definition whole_word :: "regex \<Rightarrow> regex" where
  "whole_word r = Cat WordB (Cat r WordB)"

text \<open>\<open>re.sub(r'[^\w\s-]', '', s)\<close>: characters outside the class are deleted.\<close>

definition sub_non_word_space_hyphen :: "string \<Rightarrow> string" where
  "sub_non_word_space_hyphen s = filter (\<lambda>c. is_word c \<or> is_space c \<or> c = CHR ''-'') s"

section \<open>Data model\<close>

text \<open>\<open>DocumentChunk\<close> (interfaces.py). Python's \<open>id\<close>, \<open>section\<close>, ... are the fields
  \<open>chunk_id\<close>, \<open>chunk_section\<close>, ...\<close>

record chunk =
  chunk_id :: string
  chunk_title :: string
  chunk_content :: string
  chunk_url :: string
  chunk_section :: string
  chunk_subsection :: string
  chunk_tags :: "string list"
  chunk_embedding_text :: string

text \<open>
  The elements that \<open>soup.find_all(['h1', ..., 'ol'])\<close> returns, in document order: each has
  one of the ten tag names asked for and a flattened text (\<open>element.get_text()\<close>).
  Rendering the markdown and parsing the HTML are done by external libraries; their result
  is the input of the model.
\<close>

datatype html_tag = H1 | H2 | H3 | H4 | H5 | H6 | P | PRE | UL | OL

fun tag_name :: "html_tag \<Rightarrow> string" where
  "tag_name H1 = ''h1''"
| "tag_name H2 = ''h2''"
| "tag_name H3 = ''h3''"
| "tag_name H4 = ''h4''"
| "tag_name H5 = ''h5''"
| "tag_name H6 = ''h6''"
| "tag_name P = ''p''"
| "tag_name PRE = ''pre''"
| "tag_name UL = ''ul''"
| "tag_name OL = ''ol''"

datatype element = Element (name: html_tag) (get_text: string)

text \<open>An exception with its message (\<open>str(e)\<close>).\<close>

datatype exn = Exception (message: string)

text \<open>A path as the list of its components.\<close>

type_synonym path = "string list"

text \<open>\<open>Path.name\<close>, \<open>Path.stem\<close>, \<open>Path.with_suffix('')\<close> and \<open>str(path)\<close> (pathlib).\<close>

definition path_name :: "path \<Rightarrow> string" where
  "path_name p = (if p = [] then [] else last p)"

text \<open>\<open>name.rfind('.')\<close>: the last position of a dot, \<open>None\<close> for Python's \<open>-1\<close>.\<close>

fun rfind_dot :: "string \<Rightarrow> nat option" where
  "rfind_dot [] = None"
| "rfind_dot (c # cs) =
     (case rfind_dot cs of
        Some i \<Rightarrow> Some (Suc i)
      | None \<Rightarrow> if c = CHR ''.'' then Some 0 else None)"

definition name_stem :: "string \<Rightarrow> string" where
  "name_stem nm =
     (case rfind_dot nm of
        Some i \<Rightarrow> if 0 < i \<and> i < length nm - 1 then take i nm else nm
      | None \<Rightarrow> nm)"

definition stem :: "path \<Rightarrow> string" where
  "stem p = name_stem (path_name p)"

definition with_suffix_empty :: "path \<Rightarrow> path" where
  "with_suffix_empty p = (if p = [] then [] else butlast p @ [name_stem (last p)])"

fun str_path :: "path \<Rightarrow> string" where
  "str_path [] = ''.''"
| "str_path [c] = c"
| "str_path (c # cs) = c @ ''/'' @ str_path cs"

section \<open>Tag extraction (document\_processor.py)\<close>

text \<open>The dictionary \<open>tag_patterns\<close>, in insertion order.\<close>

definition tag_patterns :: "(string \<times> regex list) list" where
  "tag_patterns =
    [(''api'', [Lit ''@app.'', Lit ''router'', Lit ''endpoint'', Lit ''path'']),
     (''http-methods'',
        [whole_word (Alt (Lit ''get'') (Alt (Lit ''post'') (Alt (Lit ''put'')
           (Alt (Lit ''delete'') (Lit ''patch'')))))]),
     (''pydantic'', [Lit ''pydantic'', Lit ''basemodel'']),
     (''async'', [whole_word (Lit ''async''), whole_word (Lit ''await'')]),
     (''dependencies'', [Lit ''dependency'', Lit ''depends'']),
     (''security'', [Lit ''security'', whole_word (Lit ''auth'')]),
     (''database'', [Lit ''database'', whole_word (Lit ''sql'')]),
     (''testing'', [whole_word (Lit ''test'')]),
     (''deployment'', [Lit ''deploy'', Lit ''docker'']),
     (''validation'', [Lit ''validat'', Lit ''schema'']),
     (''middleware'', [Lit ''middleware'']),
     (''cors'', [whole_word (Lit ''cors'')]),
     (''websocket'', [Lit ''websocket'']),
     (''background-tasks'', [Cat (Lit ''background'') (Cat DotStar (Lit ''task''))]),
     (''file-upload'', [Cat (Lit ''file'') (Cat DotStar (Lit ''upload'')), Lit ''uploadfile''])]"

text \<open>
  \<open>list(set(tags))\<close>: the distinct elements of \<open>tags\<close>. Python fixes no order for them;
  the order chosen here is not meant, and the theorems below speak of the elements only.
\<close>

definition list_set :: "'a list \<Rightarrow> 'a list" where
  "list_set xs = remdups xs"

text \<open>The section tag of \<open>extract_tags\<close>.\<close>

definition section_tag :: "string \<Rightarrow> string" where
  "section_tag section_lower = replace_space_hyphen (sub_non_word_space_hyphen section_lower)"

definition extract_tags :: "string \<Rightarrow> string \<Rightarrow> string list" where
  "extract_tags content section =
     (let content_lower = lower content;
          section_lower = lower section;
          tags = map fst (filter (\<lambda>(tag, patterns).
                   list_ex (\<lambda>pattern. re_search pattern content_lower) patterns) tag_patterns);
          tags = (if section_lower \<noteq> [] \<and> section_tag section_lower \<noteq> []
                  then tags @ [section_tag section_lower] else tags)
      in list_set tags)"

section \<open>Chunking one file (document\_processor.py)\<close>

text \<open>The variables of the loop of \<open>process_markdown_file\<close>.\<close>

record walk =
  chunks :: "chunk list"
  current_section :: string
  current_subsection :: string

text \<open>\<open>a or b\<close> on strings: \<open>a\<close> unless it is empty.\<close>

definition str_or :: "string \<Rightarrow> string \<Rightarrow> string" where
  "str_or a b = (if a \<noteq> [] then a else b)"

text \<open>\<open>int(c)\<close> for a digit character.\<close>

definition digit_value :: "char \<Rightarrow> nat" where
  "digit_value c = of_char c - 48"

text \<open>One iteration of the loop over the elements; \<open>file_stem\<close> is \<open>file_path_obj.stem\<close>.\<close>

definition process_element :: "string \<Rightarrow> string \<Rightarrow> walk \<Rightarrow> element \<Rightarrow> walk" where
  "process_element file_stem base_url st e =
     (let nm = tag_name (name e) in
      if take 1 nm = ''h'' then
        (let level = digit_value (nm ! 1) in
         if level \<le> 2 then
           st\<lparr>current_section := strip (get_text e), current_subsection := []\<rparr>
         else if level \<le> 4 then
           st\<lparr>current_subsection := strip (get_text e)\<rparr>
         else st)
      else if nm \<in> set [''p'', ''pre'', ''ul'', ''ol''] then
        (let text_content = strip (get_text e) in
         if length text_content > 50 then
           st\<lparr>chunks := chunks st @
             [\<lparr>chunk_id = file_stem @ ''#'' @ str_of_nat (length (chunks st)),
               chunk_title = str_or (current_subsection st) (str_or (current_section st) file_stem),
               chunk_content = text_content,
               chunk_url = base_url,
               chunk_section = current_section st,
               chunk_subsection = current_subsection st,
               chunk_tags = extract_tags text_content (current_section st),
               chunk_embedding_text =
                 current_section st @ '' '' @ current_subsection st @ '' '' @ text_content\<rparr>]\<rparr>
         else st)
      else st)"

definition walk_init :: walk where
  "walk_init = \<lparr>chunks = [], current_section = [], current_subsection = []\<rparr>"

text \<open>The loop over the elements of one file, from the initial variables.\<close>

definition process_elements :: "string \<Rightarrow> string \<Rightarrow> element list \<Rightarrow> chunk list" where
  "process_elements file_stem base_url es =
     chunks (foldl (process_element file_stem base_url) walk_init es)"

text \<open>
  \<open>process_markdown_file(file_path, base_url)\<close>. Opening, reading, rendering and parsing
  the file is \<open>read_elements\<close>: it raises, or gives the elements of the file.
\<close>

definition process_markdown_file ::
  "(path \<Rightarrow> exn + element list) \<Rightarrow> path \<Rightarrow> string \<Rightarrow> exn + chunk list" where
  "process_markdown_file read_elements file_path base_url =
     (case read_elements file_path of
        Inl e \<Rightarrow> Inl e
      | Inr es \<Rightarrow> Inr (process_elements (stem file_path) base_url es))"

section \<open>Collecting the files (document\_fetcher.py)\<close>

text \<open>\<open>p.relative_to(base)\<close>: raises \<open>ValueError\<close> when \<open>p\<close> is not below \<open>base\<close>.\<close>

definition relative_to :: "path \<Rightarrow> path \<Rightarrow> exn + path" where
  "relative_to p base =
     (if take (length base) p = base then Inr (drop (length base) p)
      else Inl (Exception ''path is not in the subpath''))"

text \<open>
  The body of the loop of \<open>extract_documents\<close> for one file found by \<open>rglob\<close>, with its
  \<open>try\<close>/\<open>except Exception\<close>: \<open>rel\<close> is where the file was found below \<open>docs_path\<close>, and
  \<open>processor\<close> is \<open>self.processor.process_markdown_file\<close>.
\<close>

definition extract_step ::
  "(path \<Rightarrow> string \<Rightarrow> exn + chunk list) \<Rightarrow> string \<Rightarrow> path \<Rightarrow> chunk list \<Rightarrow> path \<Rightarrow> chunk list"
  where
  "extract_step processor base_docs_url docs_path docs rel =
     (let md_file = docs_path @ rel in
      case relative_to md_file docs_path of
        Inl e \<Rightarrow> docs
      | Inr rel_path \<Rightarrow>
          (let base_url = base_docs_url @ ''/'' @ str_path (with_suffix_empty rel_path) in
           case processor md_file base_url of
             Inl e \<Rightarrow> docs
           | Inr content \<Rightarrow> if content \<noteq> [] then docs @ content else docs))"

text \<open>
  \<open>extract_documents\<close>. The file system is read through \<open>rglob_md\<close>: \<open>None\<close> when
  \<open>docs_path\<close> does not exist, otherwise the markdown files below it, in the order in which
  \<open>docs_path.rglob("*.md")\<close> enumerates them, each as its path below \<open>docs_path\<close>.
\<close>

definition extract_documents ::
  "(path \<Rightarrow> string \<Rightarrow> exn + chunk list) \<Rightarrow> string \<Rightarrow> path \<Rightarrow> (path \<Rightarrow> path list option)
     \<Rightarrow> chunk list" where
  "extract_documents processor base_docs_url repo_path rglob_md =
     (let docs_path = repo_path @ [''docs'', ''en''] in
      case rglob_md docs_path of
        None \<Rightarrow> []
      | Some files \<Rightarrow> foldl (extract_step processor base_docs_url docs_path) [] files)"

section \<open>The pipeline embedded in the server entry point (fastapi\_mcp\_server.py)\<close>

text \<open>\<open>FastAPIDocsFetcher._extract_tags\<close>\<close>

definition mono_extract_tags :: "string \<Rightarrow> string \<Rightarrow> string list" where
  "mono_extract_tags content section =
     (let content_lower = lower content;
          section_lower = lower section;
          tags =
            (if list_ex (\<lambda>word. str_in word content_lower)
                  [''@app.'', ''router'', ''endpoint'', ''path''] then [''api''] else [])
            @ (if list_ex (\<lambda>word. str_in word content_lower)
                  [''get'', ''post'', ''put'', ''delete'', ''patch''] then [''http-methods''] else [])
            @ (if str_in ''pydantic'' content_lower \<or> str_in ''basemodel'' content_lower
               then [''pydantic''] else [])
            @ (if str_in ''async'' content_lower \<or> str_in ''await'' content_lower
               then [''async''] else [])
            @ (if str_in ''dependency'' content_lower \<or> str_in ''depends'' content_lower
               then [''dependencies''] else [])
            @ (if str_in ''security'' content_lower \<or> str_in ''auth'' content_lower
               then [''security''] else [])
            @ (if str_in ''database'' content_lower \<or> str_in ''sql'' content_lower
               then [''database''] else [])
            @ (if str_in ''test'' content_lower then [''testing''] else [])
            @ (if str_in ''deploy'' content_lower \<or> str_in ''docker'' content_lower
               then [''deployment''] else [])
            @ (if section_lower \<noteq> [] then [replace_space_hyphen section_lower] else [])
      in list_set tags)"

text \<open>One iteration of the loop of \<open>FastAPIDocsFetcher._process_markdown_file\<close>.\<close>

definition mono_process_element :: "path \<Rightarrow> string \<Rightarrow> walk \<Rightarrow> element \<Rightarrow> walk" where
  "mono_process_element rel_path base_url st e =
     (let nm = tag_name (name e) in
      if take 1 nm = ''h'' then
        (let level = digit_value (nm ! 1) in
         if level \<le> 2 then
           st\<lparr>current_section := strip (get_text e), current_subsection := []\<rparr>
         else if level \<le> 4 then
           st\<lparr>current_subsection := strip (get_text e)\<rparr>
         else st)
      else if nm \<in> set [''p'', ''pre'', ''ul'', ''ol''] then
        (let text_content = strip (get_text e) in
         if length text_content > 50 then
           st\<lparr>chunks := chunks st @
             [\<lparr>chunk_id = str_path rel_path @ ''#'' @ str_of_nat (length (chunks st)),
               chunk_title =
                 str_or (current_subsection st) (str_or (current_section st) (stem rel_path)),
               chunk_content = text_content,
               chunk_url = base_url,
               chunk_section = current_section st,
               chunk_subsection = current_subsection st,
               chunk_tags = mono_extract_tags text_content (current_section st),
               chunk_embedding_text =
                 current_section st @ '' '' @ current_subsection st @ '' '' @ text_content\<rparr>]\<rparr>
         else st)
      else st)"

definition FASTAPI_DOCS_URL :: string where
  "FASTAPI_DOCS_URL = ''https://fastapi.tiangolo.com''"

text \<open>\<open>FastAPIDocsFetcher._process_markdown_file(file_path)\<close>\<close>

definition mono_process_markdown_file ::
  "(path \<Rightarrow> exn + element list) \<Rightarrow> path \<Rightarrow> path \<Rightarrow> exn + chunk list" where
  "mono_process_markdown_file read_elements repo_path file_path =
     (case read_elements file_path of
        Inl e \<Rightarrow> Inl e
      | Inr es \<Rightarrow>
          (case relative_to file_path (repo_path @ [''docs'', ''en'']) of
             Inl e \<Rightarrow> Inl e
           | Inr rel_path \<Rightarrow>
               (let base_url = FASTAPI_DOCS_URL @ ''/'' @ str_path (with_suffix_empty rel_path)
                in Inr (chunks (foldl (mono_process_element rel_path base_url) walk_init es)))))"

section \<open>The search engine (search\_engine.py)\<close>

text \<open>
  An operation on the outside world \<open>'w\<close> (the Elasticsearch cluster, the repository on
  disk): it returns a value or raises, and leaves a world behind in both cases.
\<close>

type_synonym ('a, 'w) io = "'w \<Rightarrow> (exn + 'a) \<times> 'w"

text \<open>A stored document (\<open>_source\<close>) as search returns it, a hit, and a search request.\<close>

record source_doc =
  src_id :: string
  src_title :: string
  src_section :: string
  src_subsection :: "string option"
  src_url :: string
  src_tags :: "string list"
  src_content :: string

record 's hit =
  hit_source :: source_doc
  hit_score :: 's
  hit_highlight :: "((string \<times> string list) list) option"

record search_body =
  sb_query :: string
  sb_filter_tags :: "string list option"
  sb_size :: int

text \<open>
  The calls made on the \<open>AsyncElasticsearch\<close> client, each on an index name. \<open>es_search\<close> gives
  \<open>response["hits"]["hits"]\<close>, \<open>es_get\<close> gives \<open>response["_source"]\<close>, a dictionary;
  \<open>es_bulk\<close> is \<open>async_bulk\<close> on the actions \<open>(_index, _id, _source)\<close>. The time stamp
  \<open>indexed_at\<close> is left out.
\<close>

record ('w, 's, 'v) es_client =
  es_indices_exists :: "string \<Rightarrow> (bool, 'w) io"
  es_indices_delete :: "string \<Rightarrow> (unit, 'w) io"
  es_indices_create :: "string \<Rightarrow> (unit, 'w) io"
  es_bulk :: "(string \<times> string \<times> chunk) list \<Rightarrow> (unit, 'w) io"
  es_search :: "string \<Rightarrow> search_body \<Rightarrow> ('s hit list, 'w) io"
  es_get :: "string \<Rightarrow> string \<Rightarrow> ((string \<times> 'v) list, 'w) io"

text \<open>\<open>ElasticsearchEngine.create_index\<close>: an existing index is deleted first; a failure is
  logged and raised again.\<close>

definition create_index :: "('w, 's, 'v) es_client \<Rightarrow> string \<Rightarrow> (unit, 'w) io" where
  "create_index es index_name w =
     (case es_indices_exists es index_name w of
        (Inl e, w1) \<Rightarrow> (Inl e, w1)
      | (Inr ex, w1) \<Rightarrow>
          (case (if ex then es_indices_delete es index_name w1 else (Inr (), w1)) of
             (Inl e, w2) \<Rightarrow> (Inl e, w2)
           | (Inr u, w2) \<Rightarrow> es_indices_create es index_name w2))"

text \<open>\<open>ElasticsearchEngine.index_documents\<close>\<close>

definition index_documents ::
  "('w, 's, 'v) es_client \<Rightarrow> string \<Rightarrow> chunk list \<Rightarrow> (unit, 'w) io" where
  "index_documents es index_name documents w =
     (let actions = map (\<lambda>doc. (index_name, chunk_id doc, doc)) documents
      in es_bulk es actions w)"

text \<open>\<open>ElasticsearchEngine.search_documents\<close>: a failure is logged and \<open>[]\<close> returned.\<close>

definition search_documents ::
  "('w, 's, 'v) es_client \<Rightarrow> string \<Rightarrow> string \<Rightarrow> string list option \<Rightarrow> int
     \<Rightarrow> ('s hit list, 'w) io" where
  "search_documents es index_name query tags sz w =
     (let search_body = \<lparr>sb_query = query,
            sb_filter_tags = (case tags of None \<Rightarrow> None
                              | Some ts \<Rightarrow> if ts \<noteq> [] then Some ts else None),
            sb_size = sz\<rparr>
      in case es_search es index_name search_body w of
           (Inr hits, w') \<Rightarrow> (Inr hits, w')
         | (Inl e, w') \<Rightarrow> (Inr [], w'))"

text \<open>\<open>ElasticsearchEngine.get_document_by_id\<close>: a failure is logged and \<open>None\<close> returned.\<close>

definition get_document_by_id ::
  "('w, 's, 'v) es_client \<Rightarrow> string \<Rightarrow> string \<Rightarrow> ((string \<times> 'v) list option, 'w) io" where
  "get_document_by_id es index_name doc_id w =
     (case es_get es index_name doc_id w of
        (Inr source, w') \<Rightarrow> (Inr (Some source), w')
      | (Inl e, w') \<Rightarrow> (Inr None, w'))"

text \<open>The interface \<open>ISearchEngine\<close>, and \<open>ElasticsearchEngine\<close> as an instance of it.\<close>

record ('w, 's, 'v) search_engine =
  i_create_index :: "(unit, 'w) io"
  i_index_documents :: "chunk list \<Rightarrow> (unit, 'w) io"
  i_search_documents :: "string \<Rightarrow> string list option \<Rightarrow> int \<Rightarrow> ('s hit list, 'w) io"
  i_get_document_by_id :: "string \<Rightarrow> ((string \<times> 'v) list option, 'w) io"

definition ElasticsearchEngine ::
  "('w, 's, 'v) es_client \<Rightarrow> string \<Rightarrow> ('w, 's, 'v) search_engine" where
  "ElasticsearchEngine es index_name =
     \<lparr>i_create_index = create_index es index_name,
      i_index_documents = index_documents es index_name,
      i_search_documents = search_documents es index_name,
      i_get_document_by_id = get_document_by_id es index_name\<rparr>"

section \<open>The tools (mcp\_server.py)\<close>

text \<open>One entry of \<open>formatted_results\<close>.\<close>

record 's search_result =
  res_id :: string
  res_title :: string
  res_section :: string
  res_subsection :: "string option"
  res_url :: string
  res_tags :: "string list"
  res_score :: 's
  res_content :: string
  res_highlights :: "((string \<times> string list) list) option"

text \<open>
  The dictionaries that the tools return: \<open>{"error": msg}\<close> is \<open>SearchError msg\<close>,
  \<open>GetError msg\<close>, \<open>LoadError msg\<close>; \<open>{"query": q, "total_results": n, "results": rs}\<close> is
  \<open>SearchResults q n rs\<close>; a document is \<open>Doc d\<close>;
  \<open>{"status": "success", "message": m, "document_count": n}\<close> is \<open>LoadSuccess m n\<close>.
\<close>

datatype 's search_response = SearchResults string nat "'s search_result list" | SearchError string

datatype 'v get_response = Doc "(string \<times> 'v) list" | GetError string

datatype load_response = LoadSuccess string nat | LoadError string

text \<open>The body of the loop of \<open>search_fastapi_docs\<close> for one hit.\<close>

definition format_hit :: "'s hit \<Rightarrow> 's search_result" where
  "format_hit h =
     (let source = hit_source h;
          highlight = (case hit_highlight h of None \<Rightarrow> [] | Some hl \<Rightarrow> hl)
      in \<lparr>res_id = src_id source,
          res_title = src_title source,
          res_section = src_section source,
          res_subsection = src_subsection source,
          res_url = src_url source,
          res_tags = src_tags source,
          res_score = hit_score h,
          res_content = (if length (src_content source) > 500
                         then take 500 (src_content source) @ ''...''
                         else src_content source),
          res_highlights = (if highlight \<noteq> [] then Some highlight else None)\<rparr>)"

text \<open>The tool \<open>search_fastapi_docs\<close>, with its \<open>try\<close>/\<open>except Exception\<close>.\<close>

definition search_fastapi_docs ::
  "('w, 's, 'v) search_engine \<Rightarrow> string \<Rightarrow> string list option \<Rightarrow> int
     \<Rightarrow> ('s search_response, 'w) io" where
  "search_fastapi_docs engine query tags max_results w =
     (case i_search_documents engine query tags max_results w of
        (Inr results, w') \<Rightarrow>
          (let formatted_results = map format_hit results
           in (Inr (SearchResults query (length formatted_results) formatted_results), w'))
      | (Inl e, w') \<Rightarrow> (Inr (SearchError (''Search failed: '' @ message e)), w'))"

text \<open>The tool \<open>get_fastapi_doc_by_id\<close>; \<open>if doc\<close> holds of a dictionary that is not empty.\<close>

definition get_fastapi_doc_by_id ::
  "('w, 's, 'v) search_engine \<Rightarrow> string \<Rightarrow> ('v get_response, 'w) io" where
  "get_fastapi_doc_by_id engine doc_id w =
     (case i_get_document_by_id engine doc_id w of
        (Inr doc, w') \<Rightarrow>
          (case doc of
             Some d \<Rightarrow> if d \<noteq> [] then (Inr (Doc d), w')
                       else (Inr (GetError (''Document with ID '' @ [CHR 0x27] @ doc_id
                                             @ [CHR 0x27] @ '' not found'')), w')
           | None \<Rightarrow> (Inr (GetError (''Document with ID '' @ [CHR 0x27] @ doc_id
                                       @ [CHR 0x27] @ '' not found'')), w'))
      | (Inl e, w') \<Rightarrow> (Inr (GetError (''Failed to get document: '' @ message e)), w'))"

section \<open>Loading (data\_loader.py)\<close>

text \<open>The interface \<open>IDocumentFetcher\<close>.\<close>

record 'w document_fetcher =
  i_clone_or_update_repo :: "(unit, 'w) io"
  i_extract_documents :: "(chunk list, 'w) io"

text \<open>The \<open>except Exception\<close> branch of \<open>load_data\<close>.\<close>

definition load_failed :: "exn \<Rightarrow> 'w \<Rightarrow> (exn + load_response) \<times> 'w" where
  "load_failed e w = (Inr (LoadError (''Data loading failed: '' @ message e)), w)"

text \<open>\<open>FastAPIDataLoader.load_data\<close>\<close>

definition load_data ::
  "'w document_fetcher \<Rightarrow> ('w, 's, 'v) search_engine \<Rightarrow> (load_response, 'w) io" where
  "load_data fetcher engine w =
     (case i_clone_or_update_repo fetcher w of
        (Inl e, w1) \<Rightarrow> load_failed e w1
      | (Inr u, w1) \<Rightarrow>
     (case i_extract_documents fetcher w1 of
        (Inl e, w2) \<Rightarrow> load_failed e w2
      | (Inr documents, w2) \<Rightarrow>
     if documents = [] then (Inr (LoadError ''No documents found in repository''), w2)
     else
     (case i_create_index engine w2 of
        (Inl e, w3) \<Rightarrow> load_failed e w3
      | (Inr u, w3) \<Rightarrow>
     (case i_index_documents engine documents w3 of
        (Inl e, w4) \<Rightarrow> load_failed e w4
      | (Inr u, w4) \<Rightarrow>
          (Inr (LoadSuccess (''Successfully loaded '' @ str_of_nat (length documents)
                             @ '' documentation chunks'') (length documents)), w4)))))"

text \<open>\<open>FastAPIDataLoader.refresh_data\<close>\<close>

definition refresh_data ::
  "'w document_fetcher \<Rightarrow> ('w, 's, 'v) search_engine \<Rightarrow> (load_response, 'w) io" where
  "refresh_data fetcher engine w = load_data fetcher engine w"

text \<open>
  A client and a fetcher that only record the calls made on them: the world is the list of
  the calls so far. The index exists, and every call succeeds.
\<close>

datatype call = Clone | Extract | IndicesExists | IndicesDelete | IndicesCreate | Bulk
  | Search | Get

definition recording_client :: "(call list, 's, 'v) es_client" where
  "recording_client =
     \<lparr>es_indices_exists = (\<lambda>i w. (Inr True, w @ [IndicesExists])),
      es_indices_delete = (\<lambda>i w. (Inr (), w @ [IndicesDelete])),
      es_indices_create = (\<lambda>i w. (Inr (), w @ [IndicesCreate])),
      es_bulk = (\<lambda>actions w. (Inr (), w @ [Bulk])),
      es_search = (\<lambda>i b w. (Inr [], w @ [Search])),
      es_get = (\<lambda>i d w. (Inr [], w @ [Get]))\<rparr>"

definition recording_fetcher :: "chunk list \<Rightarrow> call list document_fetcher" where
  "recording_fetcher documents =
     \<lparr>i_clone_or_update_repo = (\<lambda>w. (Inr (), w @ [Clone])),
      i_extract_documents = (\<lambda>w. (Inr documents, w @ [Extract]))\<rparr>"

text \<open>A client on which every call raises \<open>Exception msg\<close>.\<close>

definition failing_client :: "string \<Rightarrow> (unit, 's, 'v) es_client" where
  "failing_client msg =
     \<lparr>es_indices_exists = (\<lambda>i w. (Inl (Exception msg), w)),
      es_indices_delete = (\<lambda>i w. (Inl (Exception msg), w)),
      es_indices_create = (\<lambda>i w. (Inl (Exception msg), w)),
      es_bulk = (\<lambda>actions w. (Inl (Exception msg), w)),
      es_search = (\<lambda>i b w. (Inl (Exception msg), w)),
      es_get = (\<lambda>i d w. (Inl (Exception msg), w))\<rparr>"

section \<open>The specification's wording\<close>

text \<open>
  The section tag as the specification words it: after the characters outside the class
  are deleted and the text is lower-cased, every run of whitespace becomes one hyphen.
  \<open>collapse_ws_from prev\<close> walks the text; \<open>prev\<close> tells that the character before was
  whitespace.
\<close>

fun collapse_ws_from :: "bool \<Rightarrow> string \<Rightarrow> string" where
  "collapse_ws_from prev [] = []"
| "collapse_ws_from prev (c # cs) =
     (if is_space c
      then (if prev then collapse_ws_from True cs else CHR ''-'' # collapse_ws_from True cs)
      else c # collapse_ws_from False cs)"

definition spec_section_tag :: "string \<Rightarrow> string" where
  "spec_section_tag section = collapse_ws_from False (sub_non_word_space_hyphen (lower section))"

text \<open>
  The heading state as the specification words it: a pair of the current section and the
  current subsection, both empty at the start; a heading of level 1 or 2 sets the section
  and empties the subsection, a heading of level 3 or 4 sets the subsection, and every
  other block leaves the pair as it is.
\<close>

definition spec_heading_step :: "string \<times> string \<Rightarrow> element \<Rightarrow> string \<times> string" where
  "spec_heading_step s e =
     (if name e \<in> {H1, H2} then (strip (get_text e), [])
      else if name e \<in> {H3, H4} then (fst s, strip (get_text e))
      else s)"

definition spec_heading_state :: "element list \<Rightarrow> string \<times> string" where
  "spec_heading_state es = foldl spec_heading_step ([], []) es"

section \<open>Trees of files for the examples\<close>

text \<open>
  A tree in which \<open>rglob\<close> finds the given files, and a way to read files that raises on
  the files listed as unreadable and gives the same elements for every other file.
\<close>

definition tree_of :: "path list \<Rightarrow> path \<Rightarrow> path list option" where
  "tree_of files docs_path = Some files"

definition reader_of :: "path list \<Rightarrow> element list \<Rightarrow> path \<Rightarrow> exn + element list" where
  "reader_of unreadable es p =
     (if p \<in> set unreadable then Inl (Exception ''cannot read the file'') else Inr es)"

section \<open>The chunker: one step of the walk\<close>

lemma process_element_heading12:
  "name e \<in> {H1, H2} \<Longrightarrow> process_element fs url st e =
     st\<lparr>current_section := strip (get_text e), current_subsection := []\<rparr>"
  by (auto simp: process_element_def digit_value_def Let_def)

lemma process_element_heading34:
  "name e \<in> {H3, H4} \<Longrightarrow> process_element fs url st e =
     st\<lparr>current_subsection := strip (get_text e)\<rparr>"
  by (auto simp: process_element_def digit_value_def Let_def)

lemma process_element_heading56:
  "name e \<in> {H5, H6} \<Longrightarrow> process_element fs url st e = st"
  by (auto simp: process_element_def digit_value_def Let_def)

lemma process_element_content:
  "name e \<in> {P, PRE, UL, OL} \<Longrightarrow> process_element fs url st e =
    (if 50 < length (strip (get_text e))
     then st\<lparr>chunks := chunks st @
             [\<lparr>chunk_id = fs @ ''#'' @ str_of_nat (length (chunks st)),
               chunk_title = str_or (current_subsection st) (str_or (current_section st) fs),
               chunk_content = strip (get_text e),
               chunk_url = url,
               chunk_section = current_section st,
               chunk_subsection = current_subsection st,
               chunk_tags = extract_tags (strip (get_text e)) (current_section st),
               chunk_embedding_text =
                 current_section st @ '' '' @ current_subsection st @ '' ''
                   @ strip (get_text e)\<rparr>]\<rparr>
     else st)"
  by (auto simp: process_element_def Let_def)

lemma tag_cases:
  "name e \<in> {H1, H2} \<or> name e \<in> {H3, H4} \<or> name e \<in> {H5, H6} \<or> name e \<in> {P, PRE, UL, OL}"
  by (cases "name e") simp_all

lemma contents_foldl:
  "map chunk_content (chunks (foldl (process_element fs url) st es)) =
     map chunk_content (chunks st) @
     filter (\<lambda>t. 50 < length t)
       (map (\<lambda>e. strip (get_text e)) (filter (\<lambda>e. name e \<in> {P, PRE, UL, OL}) es))"
proof (induction es arbitrary: st)
  case Nil
  show ?case by simp
next
  case (Cons e es)
  consider "name e \<in> {H1, H2}" | "name e \<in> {H3, H4}" | "name e \<in> {H5, H6}"
    | "name e \<in> {P, PRE, UL, OL}"
    using tag_cases by blast
  then show ?case
  proof cases
    case 1
    then show ?thesis using Cons.IH by (auto simp: process_element_heading12)
  next
    case 2
    then show ?thesis using Cons.IH by (auto simp: process_element_heading34)
  next
    case 3
    then show ?thesis using Cons.IH by (auto simp: process_element_heading56)
  next
    case 4
    then show ?thesis using Cons.IH by (simp add: process_element_content)
  qed
qed

section \<open>The length threshold\<close>

text \<open>
  Claim C1. For an element \<open>p\<close>, \<open>pre\<close>, \<open>ul\<close> or \<open>ol\<close>, met in any state of the walk, the
  chunker appends one chunk, whose content is the stripped text, when that text is longer
  than 50 characters, and appends nothing when it has 50 characters or fewer. Over a whole
  file, the contents of the chunks are the stripped texts of these elements that are longer
  than 50, in order.
\<close>

theorem chunk_emitted_iff_longer_than_50:
  "(name e \<in> {P, PRE, UL, OL} \<longrightarrow>
      (50 < length (strip (get_text e)) \<longrightarrow>
         (\<exists>c. chunks (process_element fs url st e) = chunks st @ [c]
              \<and> chunk_content c = strip (get_text e)))
    \<and> (length (strip (get_text e)) \<le> 50 \<longrightarrow>
         chunks (process_element fs url st e) = chunks st))
   \<and> map chunk_content (process_elements fs url es) =
       filter (\<lambda>t. 50 < length t)
         (map (\<lambda>e. strip (get_text e)) (filter (\<lambda>e. name e \<in> {P, PRE, UL, OL}) es))"
proof -
  have "map chunk_content (process_elements fs url es) =
       filter (\<lambda>t. 50 < length t)
         (map (\<lambda>e. strip (get_text e)) (filter (\<lambda>e. name e \<in> {P, PRE, UL, OL}) es))"
    unfolding process_elements_def by (simp add: contents_foldl walk_init_def)
  moreover have "name e \<in> {P, PRE, UL, OL} \<Longrightarrow> 50 < length (strip (get_text e)) \<Longrightarrow>
     \<exists>c. chunks (process_element fs url st e) = chunks st @ [c]
              \<and> chunk_content c = strip (get_text e)"
    by (simp add: process_element_content)
  moreover have "name e \<in> {P, PRE, UL, OL} \<Longrightarrow> length (strip (get_text e)) \<le> 50 \<Longrightarrow>
         chunks (process_element fs url st e) = chunks st"
    by (simp add: process_element_content)
  ultimately show ?thesis by blast
qed

text \<open>A text of 51 characters after stripping gives a chunk, one of 50 gives none.\<close>

theorem chunk_emitted_iff_longer_than_50_witness:
  "name (Element P ''  The quick brown fox jumps over the lazy dog, again.   '') \<in> {P, PRE, UL, OL}
   \<and> length (strip ''  The quick brown fox jumps over the lazy dog, again.   '') = 51
   \<and> (\<exists>c. chunks (process_element ''index'' ''u'' walk_init
              (Element P ''  The quick brown fox jumps over the lazy dog, again.   '')) = [c]
          \<and> chunk_content c = ''The quick brown fox jumps over the lazy dog, again.'')
   \<and> name (Element UL ''  The quick brown fox jumps over the lazy dog again.   '') \<in> {P, PRE, UL, OL}
   \<and> length (strip ''  The quick brown fox jumps over the lazy dog again.   '') = 50
   \<and> chunks (process_element ''index'' ''u'' walk_init
              (Element UL ''  The quick brown fox jumps over the lazy dog again.   '')) = []"
proof -
  let ?a = "''  The quick brown fox jumps over the lazy dog, again.   ''"
  let ?b = "''  The quick brown fox jumps over the lazy dog again.   ''"
  have sa: "strip ?a = ''The quick brown fox jumps over the lazy dog, again.''"
    by (simp add: strip_def is_space_def)
  have sb: "strip ?b = ''The quick brown fox jumps over the lazy dog again.''"
    by (simp add: strip_def is_space_def)
  have ha: "name (Element P ?a) \<in> {P, PRE, UL, OL}"
    and hb: "name (Element UL ?b) \<in> {P, PRE, UL, OL}"
    by simp_all
  have la: "50 < length (strip (get_text (Element P ?a)))"
    and lb: "length (strip (get_text (Element UL ?b))) \<le> 50"
    by (simp_all add: sa sb)
  have w: "chunks walk_init = []"
    by (simp add: walk_init_def)
  have "\<exists>c. chunks (process_element ''index'' ''u'' walk_init (Element P ?a))
                = chunks walk_init @ [c]
          \<and> chunk_content c = strip (get_text (Element P ?a))"
    using chunk_emitted_iff_longer_than_50 [of "Element P ?a" "''index''" "''u''" walk_init "[]"]
      ha la by blast
  then have a: "\<exists>c. chunks (process_element ''index'' ''u'' walk_init (Element P ?a)) = [c]
          \<and> chunk_content c = ''The quick brown fox jumps over the lazy dog, again.''"
    by (simp add: w sa)
  have "chunks (process_element ''index'' ''u'' walk_init (Element UL ?b)) = chunks walk_init"
    using chunk_emitted_iff_longer_than_50 [of "Element UL ?b" "''index''" "''u''" walk_init "[]"]
      hb lb by blast
  then have b: "chunks (process_element ''index'' ''u'' walk_init (Element UL ?b)) = []"
    by (simp add: w)
  show ?thesis using a b by (simp add: sa sb)
qed

lemma process_elements_Nil: "process_elements fs url [] = []"
  by (simp add: process_elements_def walk_init_def)

section \<open>Headings\<close>

lemma heading_walk:
  "(current_section (foldl (process_element fs url) st es),
    current_subsection (foldl (process_element fs url) st es))
   = foldl spec_heading_step (current_section st, current_subsection st) es"
proof (induction es arbitrary: st)
  case Nil
  show ?case by simp
next
  case (Cons e es)
  consider "name e \<in> {H1, H2}" | "name e \<in> {H3, H4}" | "name e \<in> {H5, H6}"
    | "name e \<in> {P, PRE, UL, OL}"
    using tag_cases by blast
  then show ?case
  proof cases
    case 1
    then show ?thesis
      by (simp add: Cons.IH process_element_heading12 spec_heading_step_def)
  next
    case 2
    then have "name e \<notin> {H1, H2}" by auto
    with 2 show ?thesis
      by (simp add: Cons.IH process_element_heading34 spec_heading_step_def)
  next
    case 3
    then have "name e \<notin> {H1, H2}" "name e \<notin> {H3, H4}" by auto
    with 3 show ?thesis
      by (simp add: Cons.IH process_element_heading56 spec_heading_step_def)
  next
    case 4
    then have "name e \<notin> {H1, H2}" "name e \<notin> {H3, H4}" by auto
    with 4 show ?thesis
      by (simp add: Cons.IH process_element_content spec_heading_step_def)
  qed
qed

lemma heading_state_walk:
  "(current_section (foldl (process_element fs url) walk_init es),
    current_subsection (foldl (process_element fs url) walk_init es))
   = spec_heading_state es"
  by (simp add: heading_walk spec_heading_state_def walk_init_def)

lemma process_element_no_chunk:
  "\<not> (name e \<in> {P, PRE, UL, OL} \<and> 50 < length (strip (get_text e))) \<Longrightarrow>
   chunks (process_element fs url st e) = chunks st"
proof -
  assume a: "\<not> (name e \<in> {P, PRE, UL, OL} \<and> 50 < length (strip (get_text e)))"
  consider "name e \<in> {H1, H2}" | "name e \<in> {H3, H4}" | "name e \<in> {H5, H6}"
    | "name e \<in> {P, PRE, UL, OL}"
    using tag_cases by blast
  then show ?thesis
  proof cases
    case 1
    then show ?thesis by (simp add: process_element_heading12)
  next
    case 2
    then show ?thesis by (simp add: process_element_heading34)
  next
    case 3
    then show ?thesis by (simp add: process_element_heading56)
  next
    case 4
    with a have "\<not> 50 < length (strip (get_text e))" by blast
    with 4 show ?thesis by (simp add: process_element_content)
  qed
qed

text \<open>
  Claim C2. In any state of the walk: a heading \<open>h1\<close> or \<open>h2\<close> sets the current section to
  its stripped text and empties the current subsection; a heading \<open>h3\<close> or \<open>h4\<close> sets the
  current subsection only; a heading \<open>h5\<close> or \<open>h6\<close> changes nothing; a \<open>p\<close>, \<open>pre\<close>, \<open>ul\<close>
  or \<open>ol\<close> element whose stripped text has 50 characters or fewer changes nothing; and one
  whose stripped text is longer appends one chunk, which carries the current section and
  subsection, and leaves the section and subsection as they are. For every sequence of
  elements \<open>es\<close> followed by one more element \<open>e\<close>: when \<open>e\<close> gives a chunk, the chunks of
  \<open>es @ [e]\<close> are those of \<open>es\<close> and one more, whose section and subsection are the heading
  state that the specification's rules give after \<open>es\<close>; otherwise the chunks of \<open>es @ [e]\<close>
  are those of \<open>es\<close>. For the elements \<open>[h1 "Intro", p a, h3 "Details", p b]\<close> with \<open>a\<close> and
  \<open>b\<close> longer than 50 characters after stripping, the first chunk has section "Intro" and an
  empty subsection, the second has section "Intro" and subsection "Details".
\<close>

theorem heading_state_machine:
  "(name e \<in> {H1, H2} \<longrightarrow>
      process_element fs url st e =
        st\<lparr>current_section := strip (get_text e), current_subsection := []\<rparr>)
   \<and> (name e \<in> {H3, H4} \<longrightarrow>
      process_element fs url st e = st\<lparr>current_subsection := strip (get_text e)\<rparr>)
   \<and> (name e \<in> {H5, H6} \<longrightarrow> process_element fs url st e = st)
   \<and> (name e \<in> {P, PRE, UL, OL} \<and> 50 < length (strip (get_text e)) \<longrightarrow>
        (\<exists>c. process_element fs url st e = st\<lparr>chunks := chunks st @ [c]\<rparr>
             \<and> chunk_section c = current_section st
             \<and> chunk_subsection c = current_subsection st))
   \<and> (name e \<in> {P, PRE, UL, OL} \<and> length (strip (get_text e)) \<le> 50 \<longrightarrow>
        process_element fs url st e = st)
   \<and> (name e \<in> {P, PRE, UL, OL} \<and> 50 < length (strip (get_text e)) \<longrightarrow>
        (\<exists>c. process_elements fs url (es @ [e]) = process_elements fs url es @ [c]
             \<and> (chunk_section c, chunk_subsection c) = spec_heading_state es))
   \<and> (\<not> (name e \<in> {P, PRE, UL, OL} \<and> 50 < length (strip (get_text e))) \<longrightarrow>
        process_elements fs url (es @ [e]) = process_elements fs url es)
   \<and> (50 < length (strip a) \<and> 50 < length (strip b) \<longrightarrow>
        map (\<lambda>c. (chunk_section c, chunk_subsection c))
          (process_elements fs url
             [Element H1 ''Intro'', Element P a, Element H3 ''Details'', Element P b])
        = [(''Intro'', ''''), (''Intro'', ''Details'')])"
proof -
  have s1: "strip ''Intro'' = ''Intro''" and s2: "strip ''Details'' = ''Details''"
    by (simp_all add: strip_def is_space_def)
  have ex: "50 < length (strip a) \<Longrightarrow> 50 < length (strip b) \<Longrightarrow>
        map (\<lambda>c. (chunk_section c, chunk_subsection c))
          (process_elements fs url
             [Element H1 ''Intro'', Element P a, Element H3 ''Details'', Element P b])
        = [(''Intro'', ''''), (''Intro'', ''Details'')]"
    by (simp add: process_elements_def walk_init_def process_element_heading12
        process_element_heading34 process_element_content s1 s2)
  have c: "\<exists>c. process_element fs url st e = st\<lparr>chunks := chunks st @ [c]\<rparr>
             \<and> chunk_section c = current_section st
             \<and> chunk_subsection c = current_subsection st"
    if "name e \<in> {P, PRE, UL, OL}" and "50 < length (strip (get_text e))" for st
  proof -
    let ?c = "\<lparr>chunk_id = fs @ ''#'' @ str_of_nat (length (chunks st)),
               chunk_title = str_or (current_subsection st) (str_or (current_section st) fs),
               chunk_content = strip (get_text e),
               chunk_url = url,
               chunk_section = current_section st,
               chunk_subsection = current_subsection st,
               chunk_tags = extract_tags (strip (get_text e)) (current_section st),
               chunk_embedding_text =
                 current_section st @ '' '' @ current_subsection st @ '' ''
                   @ strip (get_text e)\<rparr>"
    have "process_element fs url st e = st\<lparr>chunks := chunks st @ [?c]\<rparr>"
      using that by (simp add: process_element_content)
    then show ?thesis
      by (intro exI [of _ ?c]) simp
  qed
  have d: "process_element fs url st e = st"
    if "name e \<in> {P, PRE, UL, OL}" and "length (strip (get_text e)) \<le> 50"
    using that by (simp add: process_element_content)
  have f: "\<exists>c. process_elements fs url (es @ [e]) = process_elements fs url es @ [c]
             \<and> (chunk_section c, chunk_subsection c) = spec_heading_state es"
    if p: "name e \<in> {P, PRE, UL, OL}" and l: "50 < length (strip (get_text e))"
  proof -
    let ?st = "foldl (process_element fs url) walk_init es"
    from c [OF p l, of ?st] obtain c where
      c1: "process_element fs url ?st e = ?st\<lparr>chunks := chunks ?st @ [c]\<rparr>"
      and c2: "chunk_section c = current_section ?st"
      and c3: "chunk_subsection c = current_subsection ?st"
      by blast
    have "process_elements fs url (es @ [e]) = process_elements fs url es @ [c]"
      by (simp add: process_elements_def c1)
    moreover have "(chunk_section c, chunk_subsection c) = spec_heading_state es"
      unfolding c2 c3 by (rule heading_state_walk)
    ultimately show ?thesis by blast
  qed
  have g: "process_elements fs url (es @ [e]) = process_elements fs url es"
    if "\<not> (name e \<in> {P, PRE, UL, OL} \<and> 50 < length (strip (get_text e)))"
    using that by (simp add: process_elements_def process_element_no_chunk)
  show ?thesis
    using process_element_heading12 [of e fs url st] process_element_heading34 [of e fs url st]
      process_element_heading56 [of e fs url st] c [of st] d ex f g
    by blast
qed

theorem heading_state_machine_witness:
  "name (Element H2 '' Intro '') \<in> {H1, H2}
   \<and> process_element ''index'' ''u''
        \<lparr>chunks = [], current_section = ''Old'', current_subsection = ''Sub''\<rparr>
        (Element H2 '' Intro '')
      = \<lparr>chunks = [], current_section = ''Intro'', current_subsection = ''''\<rparr>
   \<and> name (Element H4 ''Details'') \<in> {H3, H4}
   \<and> process_element ''index'' ''u''
        \<lparr>chunks = [], current_section = ''Old'', current_subsection = ''Sub''\<rparr>
        (Element H4 ''Details'')
      = \<lparr>chunks = [], current_section = ''Old'', current_subsection = ''Details''\<rparr>
   \<and> name (Element H5 ''Note'') \<in> {H5, H6}
   \<and> process_element ''index'' ''u''
        \<lparr>chunks = [], current_section = ''Old'', current_subsection = ''Sub''\<rparr>
        (Element H5 ''Note'')
      = \<lparr>chunks = [], current_section = ''Old'', current_subsection = ''Sub''\<rparr>
   \<and> name (Element P ''See below.'') \<in> {P, PRE, UL, OL}
   \<and> length (strip (get_text (Element P ''See below.''))) \<le> 50
   \<and> process_element ''index'' ''u''
        \<lparr>chunks = [], current_section = ''Old'', current_subsection = ''Sub''\<rparr>
        (Element P ''See below.'')
      = \<lparr>chunks = [], current_section = ''Old'', current_subsection = ''Sub''\<rparr>
   \<and> 50 < length (strip ''The quick brown fox jumps over the lazy dog, again.'')
   \<and> 50 < length (strip ''Pack my box with five dozen liquor jugs, and then some.'')
   \<and> map (\<lambda>c. (chunk_section c, chunk_subsection c))
        (process_elements ''index'' ''u''
           [Element H1 ''Intro'',
            Element P ''The quick brown fox jumps over the lazy dog, again.'',
            Element H3 ''Details'',
            Element P ''Pack my box with five dozen liquor jugs, and then some.''])
      = [(''Intro'', ''''), (''Intro'', ''Details'')]
   \<and> map (\<lambda>c. (chunk_section c, chunk_subsection c))
        (process_elements ''index'' ''u''
           [Element H1 ''Intro'',
            Element P ''See below.'',
            Element P ''The quick brown fox jumps over the lazy dog, again.''])
      = [(''Intro'', '''')]"
proof -
  let ?st = "\<lparr>chunks = [], current_section = ''Old'', current_subsection = ''Sub''\<rparr>"
  let ?a = "''The quick brown fox jumps over the lazy dog, again.''"
  let ?b = "''Pack my box with five dozen liquor jugs, and then some.''"
  let ?h = "Element H1 ''Intro''"
  let ?s = "Element P ''See below.''"
  note m = heading_state_machine
  have sa: "50 < length (strip ?a)" and sb: "50 < length (strip ?b)"
    by (simp_all add: strip_def is_space_def)
  have ss: "length (strip (get_text ?s)) \<le> 50"
    by (simp add: strip_def is_space_def)
  have s1: "strip '' Intro '' = ''Intro''" and s2: "strip ''Details'' = ''Details''"
    and s3: "strip ''Intro'' = ''Intro''"
    by (simp_all add: strip_def is_space_def)
  have h2: "process_element ''index'' ''u'' ?st (Element H2 '' Intro '')
      = \<lparr>chunks = [], current_section = ''Intro'', current_subsection = ''''\<rparr>"
    using m [where e = "Element H2 '' Intro ''" and fs = "''index''" and url = "''u''" and st = ?st]
    by (simp add: s1)
  have h4: "process_element ''index'' ''u'' ?st (Element H4 ''Details'')
      = \<lparr>chunks = [], current_section = ''Old'', current_subsection = ''Details''\<rparr>"
    using m [where e = "Element H4 ''Details''" and fs = "''index''" and url = "''u''" and st = ?st]
    by (simp add: s2)
  have h5: "process_element ''index'' ''u'' ?st (Element H5 ''Note'') = ?st"
    using m [where e = "Element H5 ''Note''" and fs = "''index''" and url = "''u''" and st = ?st]
    by simp
  have sh: "process_element ''index'' ''u'' ?st ?s = ?st"
    using m [where e = ?s and fs = "''index''" and url = "''u''" and st = ?st] ss
    by simp
  have ex: "map (\<lambda>c. (chunk_section c, chunk_subsection c))
        (process_elements ''index'' ''u''
           [Element H1 ''Intro'', Element P ?a, Element H3 ''Details'', Element P ?b])
      = [(''Intro'', ''''), (''Intro'', ''Details'')]"
    using m [where a = ?a and b = ?b and fs = "''index''" and url = "''u''"] sa sb by blast
  have n1: "process_elements ''index'' ''u'' ([] @ [?h]) = process_elements ''index'' ''u'' []"
    using m [where e = ?h and es = "[]" and fs = "''index''" and url = "''u''"] by simp
  have n2: "process_elements ''index'' ''u'' ([?h] @ [?s]) = process_elements ''index'' ''u'' [?h]"
    using m [where e = ?s and es = "[?h]" and fs = "''index''" and url = "''u''"] ss by simp
  have n: "process_elements ''index'' ''u'' [?h, ?s] = []"
    using n1 n2 by (simp add: process_elements_Nil)
  have hs: "spec_heading_state [?h, ?s] = (''Intro'', '''')"
    by (simp add: spec_heading_state_def spec_heading_step_def s3)
  have "\<exists>c. process_elements ''index'' ''u'' ([?h, ?s] @ [Element P ?a])
             = process_elements ''index'' ''u'' [?h, ?s] @ [c]
           \<and> (chunk_section c, chunk_subsection c) = spec_heading_state [?h, ?s]"
    using m [where e = "Element P ?a" and es = "[?h, ?s]" and fs = "''index''" and url = "''u''"]
      sa by simp
  then have sq: "map (\<lambda>c. (chunk_section c, chunk_subsection c))
        (process_elements ''index'' ''u'' [?h, ?s, Element P ?a]) = [(''Intro'', '''')]"
    by (auto simp: n hs)
  show ?thesis using h2 h4 h5 sh ex sq sa sb ss by simp
qed

lemma set_list_set: "set (list_set xs) = set xs"
  by (simp add: list_set_def)

lemma lower_empty: "lower s = [] \<longleftrightarrow> s = []"
  by (simp add: lower_def)

lemma pattern_tags_set:
  "set (map fst (filter (\<lambda>(tag, patterns). list_ex (\<lambda>pattern. re_search pattern c) patterns)
          tag_patterns)) =
     {tag. \<exists>patterns. (tag, patterns) \<in> set tag_patterns
              \<and> (\<exists>pattern \<in> set patterns. re_search pattern c)}"
  by (force simp: list_ex_iff)

lemma extract_tags_set:
  "set (extract_tags content section) =
     {tag. \<exists>patterns. (tag, patterns) \<in> set tag_patterns
              \<and> (\<exists>pattern \<in> set patterns. re_search pattern (lower content))}
     \<union> (if section \<noteq> [] \<and> section_tag (lower section) \<noteq> []
        then {section_tag (lower section)} else {})"
  unfolding extract_tags_def Let_def set_list_set
  by (simp add: pattern_tags_set lower_empty del: set_map)

section \<open>The section tag\<close>

text \<open>
  The specification's wording of the section tag collapses a run of whitespace into one
  hyphen.  The code replaces each space character (U+0020) by a hyphen of its own and leaves
  other whitespace alone, so a heading with two consecutive spaces gets two hyphens.
\<close>

theorem section_tag_double_hyphen_counterexample:
  "spec_section_tag ''A  B'' = ''a-b''
   \<and> extract_tags '''' ''A  B'' = [''a--b'']
   \<and> spec_section_tag ''A  B'' \<notin> set (extract_tags '''' ''A  B'')"
  by code_simp

lemma tag_names_not_empty: "(tag, patterns) \<in> set tag_patterns \<Longrightarrow> tag \<noteq> []"
  by (auto simp: tag_patterns_def)

lemma empty_not_in_extract_tags: "[] \<notin> set (extract_tags content section)"
  using tag_names_not_empty by (auto simp: extract_tags_set)

text \<open>
  Claim C4.  The tags of a chunk are those of its text and of the section it is under.
  The section gives a tag made from its name: the name is lower-cased, every character
  that is neither a word character, nor whitespace, nor a hyphen is removed, and then each
  space character is replaced by one hyphen (runs of spaces are not collapsed, and tabs and
  newlines are kept).  When the section is not empty and something is left of its name, the
  tags are the vocabulary tags found in the text together with this tag.  When the section
  is empty or nothing is left of its name, the tags are the vocabulary tags found in the
  text and nothing else; the empty string is never a tag.  ``API Endpoints'' gives
  ``api-endpoints'' and ``Getting Started!'' gives ``getting-started''.
\<close>

theorem section_tag_replaces_each_space:
  "(section \<noteq> [] \<and> section_tag (lower section) \<noteq> [] \<longrightarrow>
      set (extract_tags content section) =
        {tag. \<exists>patterns. (tag, patterns) \<in> set tag_patterns
                 \<and> (\<exists>pattern \<in> set patterns. re_search pattern (lower content))}
        \<union> {section_tag (lower section)})
   \<and> (section = [] \<or> section_tag (lower section) = [] \<longrightarrow>
      set (extract_tags content section) =
        {tag. \<exists>patterns. (tag, patterns) \<in> set tag_patterns
                 \<and> (\<exists>pattern \<in> set patterns. re_search pattern (lower content))})
   \<and> [] \<notin> set (extract_tags content section)
   \<and> (name e \<in> {P, PRE, UL, OL} \<and> 50 < length (strip (get_text e)) \<longrightarrow>
        (\<exists>c. chunks (process_element fs url st e) = chunks st @ [c]
             \<and> chunk_tags c = extract_tags (strip (get_text e)) (current_section st)))
   \<and> section_tag (lower section) =
       map (\<lambda>c. if c = CHR '' '' then CHR ''-'' else c)
         (filter (\<lambda>c. is_word c \<or> is_space c \<or> c = CHR ''-'') (map char_lower section))
   \<and> section_tag (lower ''API Endpoints'') = ''api-endpoints''
   \<and> section_tag (lower ''Getting Started!'') = ''getting-started''"
proof -
  have a: "section_tag (lower ''API Endpoints'') = ''api-endpoints''"
    by code_simp
  have b: "section_tag (lower ''Getting Started!'') = ''getting-started''"
    by code_simp
  have c: "section_tag (lower section) =
       map (\<lambda>c. if c = CHR '' '' then CHR ''-'' else c)
         (filter (\<lambda>c. is_word c \<or> is_space c \<or> c = CHR ''-'') (map char_lower section))"
    by (simp add: section_tag_def replace_space_hyphen_def sub_non_word_space_hyphen_def
        lower_def)
  have d: "section \<noteq> [] \<and> section_tag (lower section) \<noteq> [] \<longrightarrow>
      set (extract_tags content section) =
        {tag. \<exists>patterns. (tag, patterns) \<in> set tag_patterns
                 \<and> (\<exists>pattern \<in> set patterns. re_search pattern (lower content))}
        \<union> {section_tag (lower section)}"
    by (simp add: extract_tags_set)
  have e: "section = [] \<or> section_tag (lower section) = [] \<longrightarrow>
      set (extract_tags content section) =
        {tag. \<exists>patterns. (tag, patterns) \<in> set tag_patterns
                 \<and> (\<exists>pattern \<in> set patterns. re_search pattern (lower content))}"
    by (auto simp: extract_tags_set)
  have g: "name e \<in> {P, PRE, UL, OL} \<and> 50 < length (strip (get_text e)) \<longrightarrow>
        (\<exists>c. chunks (process_element fs url st e) = chunks st @ [c]
             \<and> chunk_tags c = extract_tags (strip (get_text e)) (current_section st))"
    by (simp add: process_element_content)
  show ?thesis
    by (intro conjI d e empty_not_in_extract_tags g c a b)
qed

theorem section_tag_replaces_each_space_witness:
  "''Getting Started!'' \<noteq> [] \<and> section_tag (lower ''Getting Started!'') \<noteq> []
   \<and> set (extract_tags ''Some text'' ''Getting Started!'') = {''getting-started''}
   \<and> (''!?'' = [] \<or> section_tag (lower ''!?'') = [])
   \<and> extract_tags ''Some text'' ''!?'' = []
   \<and> name (Element P ''The quick brown fox jumps over the lazy dog, again.'') \<in> {P, PRE, UL, OL}
   \<and> 50 < length (strip (get_text
        (Element P ''The quick brown fox jumps over the lazy dog, again.'')))
   \<and> (\<exists>c. chunks (process_element ''index'' ''u''
               \<lparr>chunks = [], current_section = ''Getting Started!'', current_subsection = ''''\<rparr>
               (Element P ''The quick brown fox jumps over the lazy dog, again.'')) = [c]
          \<and> ''getting-started'' \<in> set (chunk_tags c))"
proof -
  let ?gs = "''Getting Started!''"
  let ?e = "Element P ''The quick brown fox jumps over the lazy dog, again.''"
  let ?st = "\<lparr>chunks = [], current_section = ''Getting Started!'', current_subsection = ''''\<rparr>"
  let ?pt = "\<lambda>content. {tag. \<exists>patterns. (tag, patterns) \<in> set tag_patterns
                 \<and> (\<exists>pattern \<in> set patterns. re_search pattern (lower content))}"
  note t = section_tag_replaces_each_space
  note t1 = t [THEN conjunct1]
  note t2 = t [THEN conjunct2, THEN conjunct1]
  note t4 = t [THEN conjunct2, THEN conjunct2, THEN conjunct2, THEN conjunct1]
  have b: "section_tag (lower ?gs) = ''getting-started''"
    by code_simp
  have n1: "?gs \<noteq> []"
    by simp
  have n2: "section_tag (lower ?gs) \<noteq> []"
    unfolding b by simp
  have z: "section_tag (lower ''!?'') = []"
    by code_simp
  have z': "''!?'' = [] \<or> section_tag (lower ''!?'') = []"
    by (rule disjI2) (rule z)
  have p0: "extract_tags ''Some text'' [] = []"
    by code_simp
  have "set (extract_tags ''Some text'' []) = ?pt ''Some text''"
    by (rule t2 [of "[]" "''Some text''", THEN mp]) simp
  then have pt: "?pt ''Some text'' = {}"
    unfolding p0 by simp
  have "set (extract_tags ''Some text'' ?gs) = ?pt ''Some text'' \<union> {section_tag (lower ?gs)}"
    by (rule t1 [of ?gs "''Some text''", THEN mp]) (intro conjI n1 n2)
  then have m: "set (extract_tags ''Some text'' ?gs) = {''getting-started''}"
    unfolding pt b by simp
  have "set (extract_tags ''Some text'' ''!?'') = ?pt ''Some text''"
    by (rule t2 [of "''!?''" "''Some text''", THEN mp]) (rule z')
  then have s: "extract_tags ''Some text'' ''!?'' = []"
    unfolding pt by simp
  have e1: "name ?e \<in> {P, PRE, UL, OL}"
    by simp
  have e2: "50 < length (strip (get_text ?e))"
    by (simp add: strip_def is_space_def)
  have "\<exists>c. chunks (process_element ''index'' ''u'' ?st ?e) = chunks ?st @ [c]
             \<and> chunk_tags c = extract_tags (strip (get_text ?e)) (current_section ?st)"
    by (rule t4 [of ?e "''index''" "''u''" ?st, THEN mp]) (intro conjI e1 e2)
  then obtain c where c1: "chunks (process_element ''index'' ''u'' ?st ?e) = [c]"
    and c2: "chunk_tags c = extract_tags (strip (get_text ?e)) ?gs"
    by auto
  have "set (extract_tags (strip (get_text ?e)) ?gs)
          = ?pt (strip (get_text ?e)) \<union> {section_tag (lower ?gs)}"
    by (rule t1 [of ?gs "strip (get_text ?e)", THEN mp]) (intro conjI n1 n2)
  then have "''getting-started'' \<in> set (chunk_tags c)"
    unfolding c2 b by simp
  with c1 have k: "\<exists>c. chunks (process_element ''index'' ''u'' ?st ?e) = [c]
          \<and> ''getting-started'' \<in> set (chunk_tags c)"
    by blast
  show ?thesis
    by (intro conjI n1 n2 m z' s e1 e2 k)
qed

section \<open>Tags as a set\<close>

text \<open>
  Claim C8.  The tags of a chunk depend only on its content and its section, contain no
  duplicates, and are empty for empty content and empty section.  As a set they are the
  vocabulary tags one of whose patterns is found in the lower-cased content, together with
  the section tag when there is one.
\<close>

theorem extract_tags_is_a_set:
  "distinct (extract_tags content section)
   \<and> extract_tags '''' '''' = []
   \<and> set (extract_tags content section) =
       {tag. \<exists>patterns. (tag, patterns) \<in> set tag_patterns
                \<and> (\<exists>pattern \<in> set patterns. re_search pattern (lower content))}
       \<union> (if section \<noteq> [] \<and> section_tag (lower section) \<noteq> []
          then {section_tag (lower section)} else {})"
proof -
  have "distinct (extract_tags content section)"
    by (simp add: extract_tags_def Let_def list_set_def)
  moreover have "extract_tags '''' '''' = []"
    by code_simp
  ultimately show ?thesis
    by (simp only: extract_tags_set simp_thms)
qed

theorem extract_tags_is_a_set_witness:
  "distinct (extract_tags ''The router has an endpoint'' ''API'')
   \<and> set (extract_tags ''The router has an endpoint'' ''API'') = {''api''}"
proof -
  have "extract_tags ''The router has an endpoint'' ''API'' = [''api'']"
    by code_simp
  then show ?thesis
    using extract_tags_is_a_set [of "''The router has an endpoint''" "''API''"] by simp
qed

section \<open>Collecting\<close>

lemma extract_step_eq:
  "extract_step processor base d docs rel =
     docs @ (case processor (d @ rel) (base @ ''/'' @ str_path (with_suffix_empty rel)) of
               Inl e \<Rightarrow> [] | Inr content \<Rightarrow> content)"
  by (simp add: extract_step_def relative_to_def Let_def split: sum.split)

lemma extract_foldl:
  "foldl (extract_step processor base d) docs files =
     docs @ concat (map (\<lambda>rel.
       case processor (d @ rel) (base @ ''/'' @ str_path (with_suffix_empty rel)) of
         Inl e \<Rightarrow> [] | Inr content \<Rightarrow> content) files)"
  by (induction files arbitrary: docs) (simp_all add: extract_step_eq)

lemma extract_documents_concat:
  "rglob_md (repo_path @ [''docs'', ''en'']) = Some files \<Longrightarrow>
   extract_documents processor base repo_path rglob_md =
     concat (map (\<lambda>rel.
       case processor (repo_path @ [''docs'', ''en''] @ rel)
              (base @ ''/'' @ str_path (with_suffix_empty rel)) of
         Inl e \<Rightarrow> [] | Inr content \<Rightarrow> content) files)"
  by (simp add: extract_documents_def extract_foldl)

lemma one_paragraph_file:
  "50 < length (strip t) \<Longrightarrow>
   map chunk_id (process_elements fs url [Element P t]) = [fs @ ''#'' @ str_of_nat 0]"
  by (simp add: process_elements_def walk_init_def process_element_content)

lemma mono_one_paragraph_file:
  "50 < length (strip t) \<Longrightarrow>
   map chunk_id (chunks (mono_process_element rel url walk_init (Element P t)))
     = [str_path rel @ ''#'' @ str_of_nat 0]"
  by (simp add: mono_process_element_def walk_init_def Let_def)

lemma str_of_nat_0: "str_of_nat 0 = ''0''"
  by code_simp

text \<open>
  Claim C5.  The collector returns the concatenation, over the files found and in their
  order, of the chunks that the chunker gives for each file; a file on which the chunker
  raises contributes nothing and the walk goes on.  So a tree with one file that cannot be
  processed gives what the same tree without that file gives.
\<close>

theorem corrupt_file_is_skipped:
  "(rglob_md (repo_path @ [''docs'', ''en'']) = Some files \<longrightarrow>
      extract_documents processor base repo_path rglob_md =
        concat (map (\<lambda>rel.
          case processor (repo_path @ [''docs'', ''en''] @ rel)
                 (base @ ''/'' @ str_path (with_suffix_empty rel)) of
            Inl e \<Rightarrow> [] | Inr content \<Rightarrow> content) files))
   \<and> (rglob_md (repo_path @ [''docs'', ''en'']) = Some (pre @ [bad] @ post)
        \<and> rglob_rest (repo_path @ [''docs'', ''en'']) = Some (pre @ post)
        \<and> processor (repo_path @ [''docs'', ''en''] @ bad)
             (base @ ''/'' @ str_path (with_suffix_empty bad)) = Inl e \<longrightarrow>
      extract_documents processor base repo_path rglob_md =
        extract_documents processor base repo_path rglob_rest)"
  by (simp add: extract_documents_def extract_foldl extract_step_eq)

theorem corrupt_file_is_skipped_witness:
  "tree_of [[''a.md''], [''bad.md''], [''c.md'']] ([''repo''] @ [''docs'', ''en''])
     = Some ([[''a.md'']] @ [[''bad.md'']] @ [[''c.md'']])
   \<and> tree_of [[''a.md''], [''c.md'']] ([''repo''] @ [''docs'', ''en''])
     = Some ([[''a.md'']] @ [[''c.md'']])
   \<and> process_markdown_file
        (reader_of [[''repo'', ''docs'', ''en'', ''bad.md'']]
           [Element P ''The quick brown fox jumps over the lazy dog, again.''])
        ([''repo''] @ [''docs'', ''en''] @ [''bad.md''])
        (''https://fastapi.tiangolo.com'' @ ''/'' @ str_path (with_suffix_empty [''bad.md'']))
      = Inl (Exception ''cannot read the file'')
   \<and> extract_documents
        (process_markdown_file
           (reader_of [[''repo'', ''docs'', ''en'', ''bad.md'']]
              [Element P ''The quick brown fox jumps over the lazy dog, again.'']))
        ''https://fastapi.tiangolo.com'' [''repo'']
        (tree_of [[''a.md''], [''bad.md''], [''c.md'']])
     = extract_documents
        (process_markdown_file
           (reader_of [[''repo'', ''docs'', ''en'', ''bad.md'']]
              [Element P ''The quick brown fox jumps over the lazy dog, again.'']))
        ''https://fastapi.tiangolo.com'' [''repo'']
        (tree_of [[''a.md''], [''c.md'']])
   \<and> map chunk_id
        (extract_documents
           (process_markdown_file
              (reader_of [[''repo'', ''docs'', ''en'', ''bad.md'']]
                 [Element P ''The quick brown fox jumps over the lazy dog, again.'']))
           ''https://fastapi.tiangolo.com'' [''repo'']
           (tree_of [[''a.md''], [''bad.md''], [''c.md'']]))
     = [''a#0'', ''c#0'']"
proof -
  let ?t = "''The quick brown fox jumps over the lazy dog, again.''"
  let ?p = "process_markdown_file
    (reader_of [[''repo'', ''docs'', ''en'', ''bad.md'']] [Element P ?t])"
  let ?u = "''https://fastapi.tiangolo.com''"
  have t1: "tree_of [[''a.md''], [''bad.md''], [''c.md'']] ([''repo''] @ [''docs'', ''en''])
     = Some ([[''a.md'']] @ [[''bad.md'']] @ [[''c.md'']])"
    by (simp add: tree_of_def)
  have t1': "tree_of [[''a.md''], [''bad.md''], [''c.md'']] ([''repo''] @ [''docs'', ''en''])
     = Some [[''a.md''], [''bad.md''], [''c.md'']]"
    by (simp add: tree_of_def)
  have t2: "tree_of [[''a.md''], [''c.md'']] ([''repo''] @ [''docs'', ''en''])
     = Some ([[''a.md'']] @ [[''c.md'']])"
    by (simp add: tree_of_def)
  have bad: "?p ([''repo''] @ [''docs'', ''en''] @ [''bad.md''])
        (?u @ ''/'' @ str_path (with_suffix_empty [''bad.md'']))
      = Inl (Exception ''cannot read the file'')"
    by (simp add: process_markdown_file_def reader_of_def)
  have eq: "extract_documents ?p ?u [''repo''] (tree_of [[''a.md''], [''bad.md''], [''c.md'']])
     = extract_documents ?p ?u [''repo''] (tree_of [[''a.md''], [''c.md'']])"
    by (rule corrupt_file_is_skipped [where pre = "[[''a.md'']]" and bad = "[''bad.md'']"
          and rglob_md = "tree_of [[''a.md''], [''bad.md''], [''c.md'']]"
          and rglob_rest = "tree_of [[''a.md''], [''c.md'']]" and repo_path = "[''repo'']"
          and post = "[[''c.md'']]" and e = "Exception ''cannot read the file''",
          THEN conjunct2, THEN mp])
      (intro conjI t1 t2 bad)
  have len: "50 < length (strip ?t)"
    by (simp add: strip_def is_space_def)
  have sa: "stem [''repo'', ''docs'', ''en'', ''a.md''] = ''a''"
    and sc: "stem [''repo'', ''docs'', ''en'', ''c.md''] = ''c''"
    by code_simp+
  have ids: "map chunk_id
        (extract_documents ?p ?u [''repo''] (tree_of [[''a.md''], [''bad.md''], [''c.md'']]))
     = [''a#0'', ''c#0'']"
    by (simp add: corrupt_file_is_skipped
          [where rglob_md = "tree_of [[''a.md''], [''bad.md''], [''c.md'']]"
            and repo_path = "[''repo'']", THEN conjunct1, THEN mp, OF t1']
        process_markdown_file_def reader_of_def one_paragraph_file [OF len] sa sc str_of_nat_0)
  show ?thesis
    by (intro conjI t1 t2 bad eq ids)
qed

section \<open>Chunk identifiers\<close>

text \<open>
  Claim C3.  The identifier of a chunk is made of the stem of its file name and the
  position of the chunk in the file, so two files of the same name in different
  directories give the same identifiers: the ids of one extraction run are not pairwise
  distinct.  Here \<open>tutorial/index.md\<close> and \<open>advanced/index.md\<close> each hold one paragraph, and
  both chunks get the id \<open>index#0\<close>.  The pipeline embedded in the server entry point
  names the chunks of the same two files after their paths below the documentation
  directory, \<open>tutorial/index.md#0\<close> and \<open>advanced/index.md#0\<close>.
\<close>

theorem chunk_ids_collide_across_directories:
  "map chunk_id
     (extract_documents
        (process_markdown_file
           (reader_of [] [Element P ''The quick brown fox jumps over the lazy dog, again.'']))
        ''https://fastapi.tiangolo.com'' [''repo'']
        (tree_of [[''tutorial'', ''index.md''], [''advanced'', ''index.md'']]))
     = [''index#0'', ''index#0'']
   \<and> \<not> distinct (map chunk_id
     (extract_documents
        (process_markdown_file
           (reader_of [] [Element P ''The quick brown fox jumps over the lazy dog, again.'']))
        ''https://fastapi.tiangolo.com'' [''repo'']
        (tree_of [[''tutorial'', ''index.md''], [''advanced'', ''index.md'']])))
   \<and> map_sum message (map chunk_id)
        (mono_process_markdown_file
           (reader_of [] [Element P ''The quick brown fox jumps over the lazy dog, again.''])
           [''repo''] [''repo'', ''docs'', ''en'', ''tutorial'', ''index.md''])
     = Inr [''tutorial/index.md#0'']
   \<and> map_sum message (map chunk_id)
        (mono_process_markdown_file
           (reader_of [] [Element P ''The quick brown fox jumps over the lazy dog, again.''])
           [''repo''] [''repo'', ''docs'', ''en'', ''advanced'', ''index.md''])
     = Inr [''advanced/index.md#0'']"
proof -
  let ?t = "''The quick brown fox jumps over the lazy dog, again.''"
  have len: "50 < length (strip ?t)"
    by (simp add: strip_def is_space_def)
  have s1: "stem [''repo'', ''docs'', ''en'', ''tutorial'', ''index.md''] = ''index''"
    and s2: "stem [''repo'', ''docs'', ''en'', ''advanced'', ''index.md''] = ''index''"
    by code_simp+
  have tr: "tree_of [[''tutorial'', ''index.md''], [''advanced'', ''index.md'']]
      ([''repo''] @ [''docs'', ''en''])
     = Some [[''tutorial'', ''index.md''], [''advanced'', ''index.md'']]"
    by (simp add: tree_of_def)
  have ids: "map chunk_id
     (extract_documents
        (process_markdown_file (reader_of [] [Element P ?t]))
        ''https://fastapi.tiangolo.com'' [''repo'']
        (tree_of [[''tutorial'', ''index.md''], [''advanced'', ''index.md'']]))
     = [''index#0'', ''index#0'']"
    by (simp add: extract_documents_concat
          [where rglob_md = "tree_of [[''tutorial'', ''index.md''], [''advanced'', ''index.md'']]"
            and repo_path = "[''repo'']", OF tr]
        process_markdown_file_def reader_of_def one_paragraph_file [OF len] s1 s2 str_of_nat_0)
  have m1: "map_sum message (map chunk_id)
        (mono_process_markdown_file (reader_of [] [Element P ?t])
           [''repo''] [''repo'', ''docs'', ''en'', ''tutorial'', ''index.md''])
     = Inr [''tutorial/index.md#0'']"
    by (simp add: mono_process_markdown_file_def reader_of_def relative_to_def Let_def
        mono_one_paragraph_file [OF len] str_of_nat_0)
  have m2: "map_sum message (map chunk_id)
        (mono_process_markdown_file (reader_of [] [Element P ?t])
           [''repo''] [''repo'', ''docs'', ''en'', ''advanced'', ''index.md''])
     = Inr [''advanced/index.md#0'']"
    by (simp add: mono_process_markdown_file_def reader_of_def relative_to_def Let_def
        mono_one_paragraph_file [OF len] str_of_nat_0)
  have nd: "\<not> distinct [''index#0'', ''index#0'']"
    by simp
  show ?thesis
    unfolding ids by (intro conjI refl nd m1 m2)
qed

section \<open>Loading an empty collection\<close>

text \<open>
  Claim C10.  When cloning succeeds and the collection step returns no documents,
  \<open>load_data\<close> answers \<open>{"error": "No documents found in repository"}\<close> and leaves the world
  as the collection step left it, whatever the search engine is: neither \<open>create_index\<close> nor
  \<open>index_documents\<close> is called, so an existing index is not dropped.  On the recording
  client the calls made are \<open>Clone\<close> and \<open>Extract\<close> only, while with one document they are
  followed by the check, the deletion and the creation of the index and the bulk request.
\<close>

theorem empty_collection_leaves_index_untouched:
  "(i_clone_or_update_repo fetcher w = (Inr u, wc)
      \<and> i_extract_documents fetcher wc = (Inr [], wx) \<longrightarrow>
      load_data fetcher engine w = (Inr (LoadError ''No documents found in repository''), wx))
   \<and> load_data (recording_fetcher []) (ElasticsearchEngine recording_client index_name) []
       = (Inr (LoadError ''No documents found in repository''), [Clone, Extract])
   \<and> snd (load_data (recording_fetcher [d]) (ElasticsearchEngine recording_client index_name) [])
       = [Clone, Extract, IndicesExists, IndicesDelete, IndicesCreate, Bulk]"
proof -
  have a: "i_clone_or_update_repo fetcher w = (Inr u, wc)
      \<and> i_extract_documents fetcher wc = (Inr [], wx) \<longrightarrow>
      load_data fetcher engine w = (Inr (LoadError ''No documents found in repository''), wx)"
    by (simp add: load_data_def)
  have b: "load_data (recording_fetcher []) (ElasticsearchEngine recording_client index_name) []
       = (Inr (LoadError ''No documents found in repository''), [Clone, Extract])"
    by (simp add: load_data_def recording_fetcher_def)
  have c: "snd (load_data (recording_fetcher [d])
                 (ElasticsearchEngine recording_client index_name) [])
       = [Clone, Extract, IndicesExists, IndicesDelete, IndicesCreate, Bulk]"
    by (simp add: load_data_def recording_fetcher_def ElasticsearchEngine_def create_index_def
        index_documents_def recording_client_def)
  show ?thesis
    by (intro conjI a b c)
qed

theorem empty_collection_leaves_index_untouched_witness:
  "i_clone_or_update_repo (recording_fetcher []) [] = (Inr (), [Clone])
   \<and> i_extract_documents (recording_fetcher []) [Clone] = (Inr [], [Clone, Extract])
   \<and> load_data (recording_fetcher [])
        (ElasticsearchEngine (recording_client :: (call list, nat, string) es_client)
           ''fastapi_docs'') []
       = (Inr (LoadError ''No documents found in repository''), [Clone, Extract])"
proof -
  have c: "i_clone_or_update_repo (recording_fetcher []) [] = (Inr (), [Clone])"
    by (simp add: recording_fetcher_def)
  have x: "i_extract_documents (recording_fetcher []) [Clone] = (Inr [], [Clone, Extract])"
    by (simp add: recording_fetcher_def)
  have l: "load_data (recording_fetcher [])
        (ElasticsearchEngine (recording_client :: (call list, nat, string) es_client)
           ''fastapi_docs'') []
       = (Inr (LoadError ''No documents found in repository''), [Clone, Extract])"
    by (rule empty_collection_leaves_index_untouched
          [where fetcher = "recording_fetcher []" and w = "[]" and u = "()" and wc = "[Clone]",
           THEN conjunct1, THEN mp])
      (intro conjI c x)
  show ?thesis
    by (intro conjI c x l)
qed

section \<open>Looking a document up\<close>

text \<open>
  Claim C6.  The tool \<open>get_fastapi_doc_by_id\<close> on the Elasticsearch engine answers
  \<open>{"error": "Document with ID '<id>' not found"}\<close> when the lookup in the engine raises,
  for the engine catches the exception and reports \<open>None\<close>; it gives the same answer
  whenever an engine reports \<open>None\<close> or an empty document, and it gives the document when
  the engine finds one.  Nothing is raised to the caller of the tool, for any engine, and
  the Elasticsearch engine's \<open>get_document_by_id\<close> never raises.  The handler of the tool
  itself, which an engine reaches only by raising from \<open>get_document_by_id\<close>, answers
  \<open>{"error": "Failed to get document: <message>"}\<close>.
\<close>

theorem lookup_failure_reads_as_not_found:
  "(es_get es index_name doc_id w = (Inl e, w') \<longrightarrow>
      get_fastapi_doc_by_id (ElasticsearchEngine es index_name) doc_id w
        = (Inr (GetError (''Document with ID '' @ [CHR 0x27] @ doc_id @ [CHR 0x27]
                          @ '' not found'')), w'))
   \<and> (i_get_document_by_id engine doc_id w = (Inr None, w')
        \<or> i_get_document_by_id engine doc_id w = (Inr (Some []), w') \<longrightarrow>
      get_fastapi_doc_by_id engine doc_id w
        = (Inr (GetError (''Document with ID '' @ [CHR 0x27] @ doc_id @ [CHR 0x27]
                          @ '' not found'')), w'))
   \<and> (es_get es index_name doc_id w = (Inr doc, w') \<and> doc \<noteq> [] \<longrightarrow>
      get_fastapi_doc_by_id (ElasticsearchEngine es index_name) doc_id w = (Inr (Doc doc), w'))
   \<and> (\<exists>r. fst (get_fastapi_doc_by_id engine doc_id w) = Inr r)
   \<and> (\<exists>r. fst (i_get_document_by_id (ElasticsearchEngine es index_name) doc_id w) = Inr r)
   \<and> (i_get_document_by_id engine doc_id w = (Inl e, w') \<longrightarrow>
      get_fastapi_doc_by_id engine doc_id w
        = (Inr (GetError (''Failed to get document: '' @ message e)), w'))"
proof -
  have a: "es_get es index_name doc_id w = (Inl e, w') \<longrightarrow>
      get_fastapi_doc_by_id (ElasticsearchEngine es index_name) doc_id w
        = (Inr (GetError (''Document with ID '' @ [CHR 0x27] @ doc_id @ [CHR 0x27]
                          @ '' not found'')), w')"
    by (simp add: get_fastapi_doc_by_id_def ElasticsearchEngine_def get_document_by_id_def)
  have b: "i_get_document_by_id engine doc_id w = (Inr None, w')
        \<or> i_get_document_by_id engine doc_id w = (Inr (Some []), w') \<longrightarrow>
      get_fastapi_doc_by_id engine doc_id w
        = (Inr (GetError (''Document with ID '' @ [CHR 0x27] @ doc_id @ [CHR 0x27]
                          @ '' not found'')), w')"
    by (auto simp: get_fastapi_doc_by_id_def)
  have c: "es_get es index_name doc_id w = (Inr doc, w') \<and> doc \<noteq> [] \<longrightarrow>
      get_fastapi_doc_by_id (ElasticsearchEngine es index_name) doc_id w = (Inr (Doc doc), w')"
    by (simp add: get_fastapi_doc_by_id_def ElasticsearchEngine_def get_document_by_id_def)
  have d: "\<exists>r. fst (get_fastapi_doc_by_id engine doc_id w) = Inr r"
    by (simp add: get_fastapi_doc_by_id_def split: prod.split sum.split option.split)
  have f: "\<exists>r. fst (i_get_document_by_id (ElasticsearchEngine es index_name) doc_id w) = Inr r"
    by (simp add: ElasticsearchEngine_def get_document_by_id_def split: prod.split sum.split)
  have g: "i_get_document_by_id engine doc_id w = (Inl e, w') \<longrightarrow>
      get_fastapi_doc_by_id engine doc_id w
        = (Inr (GetError (''Failed to get document: '' @ message e)), w')"
    by (simp add: get_fastapi_doc_by_id_def)
  show ?thesis
    by (intro conjI a b c d f g)
qed

theorem lookup_failure_reads_as_not_found_witness:
  "es_get (failing_client ''connection refused'' :: (unit, nat, string) es_client)
      ''fastapi_docs'' ''index#0'' () = (Inl (Exception ''connection refused''), ())
   \<and> get_fastapi_doc_by_id
        (ElasticsearchEngine
           (failing_client ''connection refused'' :: (unit, nat, string) es_client)
           ''fastapi_docs'') ''index#0'' ()
      = (Inr (GetError (''Document with ID '' @ [CHR 0x27] @ ''index#0'' @ [CHR 0x27]
                        @ '' not found'')), ())
   \<and> es_get (recording_client :: (call list, nat, string) es_client)
        ''fastapi_docs'' ''index#0'' [] = (Inr [], [Get])
   \<and> get_fastapi_doc_by_id
        (ElasticsearchEngine (recording_client :: (call list, nat, string) es_client)
           ''fastapi_docs'') ''index#0'' []
      = (Inr (GetError (''Document with ID '' @ [CHR 0x27] @ ''index#0'' @ [CHR 0x27]
                        @ '' not found'')), [Get])
   \<and> es_get ((recording_client :: (call list, nat, string) es_client)
          \<lparr>es_get := \<lambda>i d w. (Inr [(''id'', d)], w @ [Get])\<rparr>)
        ''fastapi_docs'' ''index#0'' [] = (Inr [(''id'', ''index#0'')], [Get])
   \<and> [(''id'', ''index#0'')] \<noteq> []
   \<and> get_fastapi_doc_by_id
        (ElasticsearchEngine
           ((recording_client :: (call list, nat, string) es_client)
              \<lparr>es_get := \<lambda>i d w. (Inr [(''id'', d)], w @ [Get])\<rparr>)
           ''fastapi_docs'') ''index#0'' []
      = (Inr (Doc [(''id'', ''index#0'')]), [Get])
   \<and> i_get_document_by_id
        ((ElasticsearchEngine (recording_client :: (call list, nat, string) es_client)
            ''fastapi_docs'')
           \<lparr>i_get_document_by_id := \<lambda>d w. (Inl (Exception ''timed out''), w @ [Get])\<rparr>)
        ''index#0'' []
      = (Inl (Exception ''timed out''), [Get])
   \<and> get_fastapi_doc_by_id
        ((ElasticsearchEngine (recording_client :: (call list, nat, string) es_client)
            ''fastapi_docs'')
           \<lparr>i_get_document_by_id := \<lambda>d w. (Inl (Exception ''timed out''), w @ [Get])\<rparr>)
        ''index#0'' []
      = (Inr (GetError ''Failed to get document: timed out''), [Get])"
proof -
  let ?f = "failing_client ''connection refused'' :: (unit, nat, string) es_client"
  let ?d = "(recording_client :: (call list, nat, string) es_client)
          \<lparr>es_get := \<lambda>i d w. (Inr [(''id'', d)], w @ [Get])\<rparr>"
  let ?g = "(ElasticsearchEngine (recording_client :: (call list, nat, string) es_client)
            ''fastapi_docs'')
           \<lparr>i_get_document_by_id := \<lambda>d w. (Inl (Exception ''timed out''), w @ [Get])\<rparr>"
  let ?r = "recording_client :: (call list, nat, string) es_client"
  note t = lookup_failure_reads_as_not_found
  have h1: "es_get ?f ''fastapi_docs'' ''index#0'' () = (Inl (Exception ''connection refused''), ())"
    by (simp add: failing_client_def)
  have c1: "get_fastapi_doc_by_id (ElasticsearchEngine ?f ''fastapi_docs'') ''index#0'' ()
      = (Inr (GetError (''Document with ID '' @ [CHR 0x27] @ ''index#0'' @ [CHR 0x27]
                        @ '' not found'')), ())"
    by (rule t [where es = ?f and e = "Exception ''connection refused''",
          THEN conjunct1, THEN mp]) (rule h1)
  have h2: "es_get ?r ''fastapi_docs'' ''index#0'' [] = (Inr [], [Get])"
    by (simp add: recording_client_def)
  have h2': "i_get_document_by_id (ElasticsearchEngine ?r ''fastapi_docs'') ''index#0'' []
        = (Inr None, [Get])
      \<or> i_get_document_by_id (ElasticsearchEngine ?r ''fastapi_docs'') ''index#0'' []
        = (Inr (Some []), [Get])"
    by (simp add: ElasticsearchEngine_def get_document_by_id_def h2)
  have c2: "get_fastapi_doc_by_id (ElasticsearchEngine ?r ''fastapi_docs'') ''index#0'' []
      = (Inr (GetError (''Document with ID '' @ [CHR 0x27] @ ''index#0'' @ [CHR 0x27]
                        @ '' not found'')), [Get])"
    by (rule t [where engine = "ElasticsearchEngine ?r ''fastapi_docs''",
          THEN conjunct2, THEN conjunct1, THEN mp]) (rule h2')
  have h3: "es_get ?d ''fastapi_docs'' ''index#0'' [] = (Inr [(''id'', ''index#0'')], [Get])"
    by simp
  have n3: "[(''id'', ''index#0'')] \<noteq> []"
    by simp
  have c3: "get_fastapi_doc_by_id (ElasticsearchEngine ?d ''fastapi_docs'') ''index#0'' []
      = (Inr (Doc [(''id'', ''index#0'')]), [Get])"
    by (rule t [where es = ?d, THEN conjunct2, THEN conjunct2, THEN conjunct1, THEN mp])
      (intro conjI h3 n3)
  have h4: "i_get_document_by_id ?g ''index#0'' [] = (Inl (Exception ''timed out''), [Get])"
    by simp
  have "get_fastapi_doc_by_id ?g ''index#0'' []
      = (Inr (GetError (''Failed to get document: '' @ message (Exception ''timed out''))), [Get])"
    by (rule t [where engine = ?g and e = "Exception ''timed out''",
          THEN conjunct2, THEN conjunct2, THEN conjunct2, THEN conjunct2, THEN conjunct2,
          THEN mp])
      (rule h4)
  then have c4: "get_fastapi_doc_by_id ?g ''index#0'' []
      = (Inr (GetError ''Failed to get document: timed out''), [Get])"
    by simp
  show ?thesis
    by (intro conjI h1 c1 h2 c2 h3 n3 c3 h4 c4)
qed

section \<open>A search that fails\<close>

text \<open>
  The specification has the search tool answer \<open>{"error": "Search failed: ..."}\<close> whenever
  the search of the gateway fails, and not an empty result.  On the Elasticsearch engine a
  client on which every call raises makes the tool answer the ordinary result with no hits.
\<close>

theorem failed_search_gives_empty_result_counterexample:
  "search_fastapi_docs
     (ElasticsearchEngine (failing_client ''connection refused'' :: (unit, nat, string) es_client)
        ''fastapi_docs'')
     ''query'' None 10 ()
   = (Inr (SearchResults ''query'' 0 []), ())
   \<and> search_fastapi_docs
     (ElasticsearchEngine (failing_client ''connection refused'' :: (unit, nat, string) es_client)
        ''fastapi_docs'')
     ''query'' None 10 ()
   \<noteq> (Inr (SearchError (''Search failed: '' @ ''connection refused'')), ())"
  by (simp add: search_fastapi_docs_def ElasticsearchEngine_def search_documents_def
      failing_client_def)

text \<open>
  Claim C7.  When \<open>search_documents\<close> of the engine raises, the search tool answers
  \<open>{"error": "Search failed: <message>"}\<close>, and for no engine does the tool raise.  The
  Elasticsearch engine does not raise from \<open>search_documents\<close>: when the search of its
  client fails, it returns no hits, and the tool then answers the ordinary result for the
  query with \<open>total_results\<close> 0 and no results.
\<close>

theorem search_failure_by_layer:
  "(i_search_documents engine query tags max_results w = (Inl e, w') \<longrightarrow>
      search_fastapi_docs engine query tags max_results w
        = (Inr (SearchError (''Search failed: '' @ message e)), w'))
   \<and> (\<exists>r. fst (search_fastapi_docs engine query tags max_results w) = Inr r)
   \<and> (\<exists>r. fst (i_search_documents (ElasticsearchEngine es index_name) query tags max_results w)
          = Inr r)
   \<and> (es_search es index_name
          \<lparr>sb_query = query,
            sb_filter_tags = (case tags of None \<Rightarrow> None
                              | Some ts \<Rightarrow> if ts \<noteq> [] then Some ts else None),
            sb_size = max_results\<rparr> w = (Inl e, w') \<longrightarrow>
      search_fastapi_docs (ElasticsearchEngine es index_name) query tags max_results w
        = (Inr (SearchResults query 0 []), w'))
   \<and> (i_search_documents engine query tags max_results w = (Inr hits, w') \<longrightarrow>
      search_fastapi_docs engine query tags max_results w
        = (Inr (SearchResults query (length hits) (map format_hit hits)), w'))"
proof -
  have a: "i_search_documents engine query tags max_results w = (Inl e, w') \<longrightarrow>
      search_fastapi_docs engine query tags max_results w
        = (Inr (SearchError (''Search failed: '' @ message e)), w')"
    by (simp add: search_fastapi_docs_def)
  have b: "\<exists>r. fst (search_fastapi_docs engine query tags max_results w) = Inr r"
    by (simp add: search_fastapi_docs_def Let_def split: prod.split sum.split)
  have c: "\<exists>r. fst (i_search_documents (ElasticsearchEngine es index_name)
                      query tags max_results w) = Inr r"
    by (simp add: ElasticsearchEngine_def search_documents_def Let_def
        split: prod.split sum.split)
  have d: "es_search es index_name
          \<lparr>sb_query = query,
            sb_filter_tags = (case tags of None \<Rightarrow> None
                              | Some ts \<Rightarrow> if ts \<noteq> [] then Some ts else None),
            sb_size = max_results\<rparr> w = (Inl e, w') \<longrightarrow>
      search_fastapi_docs (ElasticsearchEngine es index_name) query tags max_results w
        = (Inr (SearchResults query 0 []), w')"
    by (simp add: search_fastapi_docs_def ElasticsearchEngine_def search_documents_def Let_def)
  have f: "i_search_documents engine query tags max_results w = (Inr hits, w') \<longrightarrow>
      search_fastapi_docs engine query tags max_results w
        = (Inr (SearchResults query (length hits) (map format_hit hits)), w')"
    by (simp add: search_fastapi_docs_def Let_def)
  show ?thesis
    by (intro conjI a b c d f)
qed

theorem search_failure_by_layer_witness:
  "i_search_documents
      ((ElasticsearchEngine (recording_client :: (call list, nat, string) es_client)
         ''fastapi_docs'')
        \<lparr>i_search_documents := \<lambda>q t n w. (Inl (Exception ''timed out''), w @ [Search])\<rparr>)
      ''query'' None 10 []
     = (Inl (Exception ''timed out''), [Search])
   \<and> search_fastapi_docs
      ((ElasticsearchEngine (recording_client :: (call list, nat, string) es_client)
         ''fastapi_docs'')
        \<lparr>i_search_documents := \<lambda>q t n w. (Inl (Exception ''timed out''), w @ [Search])\<rparr>)
      ''query'' None 10 []
     = (Inr (SearchError ''Search failed: timed out''), [Search])
   \<and> es_search (failing_client ''connection refused'' :: (unit, nat, string) es_client)
        ''fastapi_docs'' \<lparr>sb_query = ''query'', sb_filter_tags = None, sb_size = 10\<rparr> ()
     = (Inl (Exception ''connection refused''), ())
   \<and> search_fastapi_docs
        (ElasticsearchEngine
           (failing_client ''connection refused'' :: (unit, nat, string) es_client)
           ''fastapi_docs'')
        ''query'' None 10 ()
     = (Inr (SearchResults ''query'' 0 []), ())
   \<and> i_search_documents
        (ElasticsearchEngine (recording_client :: (call list, nat, string) es_client)
           ''fastapi_docs'')
        ''query'' None 10 []
     = (Inr [], [Search])
   \<and> search_fastapi_docs
        (ElasticsearchEngine (recording_client :: (call list, nat, string) es_client)
           ''fastapi_docs'')
        ''query'' None 10 []
     = (Inr (SearchResults ''query'' 0 []), [Search])"
proof -
  let ?r = "ElasticsearchEngine (recording_client :: (call list, nat, string) es_client)
           ''fastapi_docs''"
  let ?g = "(ElasticsearchEngine (recording_client :: (call list, nat, string) es_client)
         ''fastapi_docs'')
        \<lparr>i_search_documents := \<lambda>q t n w. (Inl (Exception ''timed out''), w @ [Search])\<rparr>"
  let ?f = "failing_client ''connection refused'' :: (unit, nat, string) es_client"
  note t = search_failure_by_layer
  have h1: "i_search_documents ?g ''query'' None 10 [] = (Inl (Exception ''timed out''), [Search])"
    by simp
  have "search_fastapi_docs ?g ''query'' None 10 []
     = (Inr (SearchError (''Search failed: '' @ message (Exception ''timed out''))), [Search])"
    by (rule t [where engine = ?g and e = "Exception ''timed out''",
          THEN conjunct1, THEN mp]) (rule h1)
  then have c1: "search_fastapi_docs ?g ''query'' None 10 []
     = (Inr (SearchError ''Search failed: timed out''), [Search])"
    by simp
  have h2: "es_search ?f ''fastapi_docs''
        \<lparr>sb_query = ''query'', sb_filter_tags = None, sb_size = 10\<rparr> ()
     = (Inl (Exception ''connection refused''), ())"
    by (simp add: failing_client_def)
  have h2': "es_search ?f ''fastapi_docs''
        \<lparr>sb_query = ''query'',
          sb_filter_tags = (case None of None \<Rightarrow> None
                            | Some ts \<Rightarrow> if ts \<noteq> [] then Some ts else None),
          sb_size = 10\<rparr> ()
     = (Inl (Exception ''connection refused''), ())"
    by (simp add: failing_client_def)
  have c2: "search_fastapi_docs (ElasticsearchEngine ?f ''fastapi_docs'') ''query'' None 10 ()
     = (Inr (SearchResults ''query'' 0 []), ())"
    by (rule t [where es = ?f and e = "Exception ''connection refused''" and tags = None,
          THEN conjunct2, THEN conjunct2, THEN conjunct2, THEN conjunct1, THEN mp])
      (rule h2')
  have h3: "i_search_documents ?r ''query'' None 10 [] = (Inr [], [Search])"
    by (simp add: ElasticsearchEngine_def search_documents_def recording_client_def)
  have "search_fastapi_docs ?r ''query'' None 10 []
     = (Inr (SearchResults ''query'' (length ([] :: nat hit list)) (map format_hit [])), [Search])"
    by (rule t [where engine = ?r and hits = "[]",
          THEN conjunct2, THEN conjunct2, THEN conjunct2, THEN conjunct2, THEN mp])
      (rule h3)
  then have c3: "search_fastapi_docs ?r ''query'' None 10 []
     = (Inr (SearchResults ''query'' 0 []), [Search])"
    by simp
  show ?thesis
    by (intro conjI h1 c1 h2 c2 h3 c3)
qed

section \<open>The two pipelines\<close>

lemma process_element_eq:
  "process_element fs url st e =
    (if name e \<in> {H1, H2}
     then st\<lparr>current_section := strip (get_text e), current_subsection := []\<rparr>
     else if name e \<in> {H3, H4} then st\<lparr>current_subsection := strip (get_text e)\<rparr>
     else if name e \<in> {P, PRE, UL, OL} \<and> 50 < length (strip (get_text e))
     then st\<lparr>chunks := chunks st @
             [\<lparr>chunk_id = fs @ ''#'' @ str_of_nat (length (chunks st)),
               chunk_title = str_or (current_subsection st) (str_or (current_section st) fs),
               chunk_content = strip (get_text e),
               chunk_url = url,
               chunk_section = current_section st,
               chunk_subsection = current_subsection st,
               chunk_tags = extract_tags (strip (get_text e)) (current_section st),
               chunk_embedding_text =
                 current_section st @ '' '' @ current_subsection st @ '' ''
                   @ strip (get_text e)\<rparr>]\<rparr>
     else st)"
  by (cases "name e") (simp_all add: process_element_def digit_value_def Let_def)

lemma mono_process_element_eq:
  "mono_process_element rel url st e =
    (if name e \<in> {H1, H2}
     then st\<lparr>current_section := strip (get_text e), current_subsection := []\<rparr>
     else if name e \<in> {H3, H4} then st\<lparr>current_subsection := strip (get_text e)\<rparr>
     else if name e \<in> {P, PRE, UL, OL} \<and> 50 < length (strip (get_text e))
     then st\<lparr>chunks := chunks st @
             [\<lparr>chunk_id = str_path rel @ ''#'' @ str_of_nat (length (chunks st)),
               chunk_title =
                 str_or (current_subsection st) (str_or (current_section st) (stem rel)),
               chunk_content = strip (get_text e),
               chunk_url = url,
               chunk_section = current_section st,
               chunk_subsection = current_subsection st,
               chunk_tags = mono_extract_tags (strip (get_text e)) (current_section st),
               chunk_embedding_text =
                 current_section st @ '' '' @ current_subsection st @ '' ''
                   @ strip (get_text e)\<rparr>]\<rparr>
     else st)"
  by (cases "name e") (simp_all add: mono_process_element_def digit_value_def Let_def)

lemma walks_agree:
  "current_section st = current_section st' \<Longrightarrow>
   current_subsection st = current_subsection st' \<Longrightarrow>
   map (\<lambda>c. (chunk_title c, chunk_content c, chunk_url c, chunk_section c,
              chunk_subsection c, chunk_embedding_text c)) (chunks st)
     = map (\<lambda>c. (chunk_title c, chunk_content c, chunk_url c, chunk_section c,
              chunk_subsection c, chunk_embedding_text c)) (chunks st') \<Longrightarrow>
   current_section (foldl (process_element (stem rel) url) st es)
     = current_section (foldl (mono_process_element rel url) st' es)
   \<and> current_subsection (foldl (process_element (stem rel) url) st es)
     = current_subsection (foldl (mono_process_element rel url) st' es)
   \<and> map (\<lambda>c. (chunk_title c, chunk_content c, chunk_url c, chunk_section c,
              chunk_subsection c, chunk_embedding_text c))
        (chunks (foldl (process_element (stem rel) url) st es))
     = map (\<lambda>c. (chunk_title c, chunk_content c, chunk_url c, chunk_section c,
              chunk_subsection c, chunk_embedding_text c))
        (chunks (foldl (mono_process_element rel url) st' es))"
proof (induction es arbitrary: st st')
  case Nil
  then show ?case by simp
next
  case (Cons e es)
  have "current_section (process_element (stem rel) url st e)
          = current_section (mono_process_element rel url st' e)"
    and "current_subsection (process_element (stem rel) url st e)
          = current_subsection (mono_process_element rel url st' e)"
    and "map (\<lambda>c. (chunk_title c, chunk_content c, chunk_url c, chunk_section c,
              chunk_subsection c, chunk_embedding_text c))
           (chunks (process_element (stem rel) url st e))
          = map (\<lambda>c. (chunk_title c, chunk_content c, chunk_url c, chunk_section c,
              chunk_subsection c, chunk_embedding_text c))
           (chunks (mono_process_element rel url st' e))"
    using Cons.prems by (simp_all add: process_element_eq mono_process_element_eq)
  then show ?case
    using Cons.IH by simp
qed

lemma stem_below: "rel \<noteq> [] \<Longrightarrow> stem (d @ rel) = stem rel"
  by (simp add: stem_def path_name_def)

lemma re_search_Lit: "re_search (Lit w) s = str_in w s"
  by (auto simp: re_search_def str_in_def list_ex_iff)

lemma re_search_Alt: "re_search (Alt a b) s = (re_search a s \<or> re_search b s)"
  by (auto simp: re_search_def list_ex_iff)

lemma match_ends_whole_word:
  "match_ends (whole_word r) s i \<noteq> [] \<Longrightarrow> match_ends r s i \<noteq> []"
  by (auto simp: whole_word_def split: if_splits)

lemma re_search_whole_word: "re_search (whole_word r) s \<Longrightarrow> re_search r s"
  unfolding re_search_def list_ex_iff using match_ends_whole_word by blast

lemma in_set_if: "x \<in> set (if b then [a] else []) \<longleftrightarrow> b \<and> x = a"
  by auto

lemma mono_extract_tags_mem:
  "tag \<in> set (mono_extract_tags content section) \<longleftrightarrow>
     (str_in ''@app.'' (lower content) \<or> str_in ''router'' (lower content)
        \<or> str_in ''endpoint'' (lower content) \<or> str_in ''path'' (lower content))
       \<and> tag = ''api''
     \<or> (str_in ''get'' (lower content) \<or> str_in ''post'' (lower content)
        \<or> str_in ''put'' (lower content) \<or> str_in ''delete'' (lower content)
        \<or> str_in ''patch'' (lower content))
       \<and> tag = ''http-methods''
     \<or> (str_in ''pydantic'' (lower content) \<or> str_in ''basemodel'' (lower content))
       \<and> tag = ''pydantic''
     \<or> (str_in ''async'' (lower content) \<or> str_in ''await'' (lower content))
       \<and> tag = ''async''
     \<or> (str_in ''dependency'' (lower content) \<or> str_in ''depends'' (lower content))
       \<and> tag = ''dependencies''
     \<or> (str_in ''security'' (lower content) \<or> str_in ''auth'' (lower content))
       \<and> tag = ''security''
     \<or> (str_in ''database'' (lower content) \<or> str_in ''sql'' (lower content))
       \<and> tag = ''database''
     \<or> str_in ''test'' (lower content) \<and> tag = ''testing''
     \<or> (str_in ''deploy'' (lower content) \<or> str_in ''docker'' (lower content))
       \<and> tag = ''deployment''
     \<or> lower section \<noteq> [] \<and> tag = replace_space_hyphen (lower section)"
  unfolding mono_extract_tags_def Let_def list_set_def set_remdups set_append Un_iff in_set_if
  by (simp split del: if_split)

lemma shared_tags_included:
  assumes t: "(tag, patterns) \<in> set (take 9 tag_patterns)"
    and p: "\<exists>pattern \<in> set patterns. re_search pattern (lower content)"
  shows "tag \<in> set (mono_extract_tags content section)"
proof -
  from t have "(tag, patterns) = (''api'', [Lit ''@app.'', Lit ''router'', Lit ''endpoint'', Lit ''path''])
    \<or> (tag, patterns) = (''http-methods'',
        [whole_word (Alt (Lit ''get'') (Alt (Lit ''post'') (Alt (Lit ''put'')
           (Alt (Lit ''delete'') (Lit ''patch'')))))])
    \<or> (tag, patterns) = (''pydantic'', [Lit ''pydantic'', Lit ''basemodel''])
    \<or> (tag, patterns) = (''async'', [whole_word (Lit ''async''), whole_word (Lit ''await'')])
    \<or> (tag, patterns) = (''dependencies'', [Lit ''dependency'', Lit ''depends''])
    \<or> (tag, patterns) = (''security'', [Lit ''security'', whole_word (Lit ''auth'')])
    \<or> (tag, patterns) = (''database'', [Lit ''database'', whole_word (Lit ''sql'')])
    \<or> (tag, patterns) = (''testing'', [whole_word (Lit ''test'')])
    \<or> (tag, patterns) = (''deployment'', [Lit ''deploy'', Lit ''docker''])"
    unfolding tag_patterns_def by (simp only: take_Suc_Cons take_0 numeral_nat One_nat_def
        set_simps insert_iff empty_iff simp_thms)
  then consider
      (api) "tag = ''api''"
        "patterns = [Lit ''@app.'', Lit ''router'', Lit ''endpoint'', Lit ''path'']"
    | (http) "tag = ''http-methods''"
        "patterns = [whole_word (Alt (Lit ''get'') (Alt (Lit ''post'') (Alt (Lit ''put'')
           (Alt (Lit ''delete'') (Lit ''patch'')))))]"
    | (pyd) "tag = ''pydantic''" "patterns = [Lit ''pydantic'', Lit ''basemodel'']"
    | (asy) "tag = ''async''" "patterns = [whole_word (Lit ''async''), whole_word (Lit ''await'')]"
    | (dep) "tag = ''dependencies''" "patterns = [Lit ''dependency'', Lit ''depends'']"
    | (sec) "tag = ''security''" "patterns = [Lit ''security'', whole_word (Lit ''auth'')]"
    | (dat) "tag = ''database''" "patterns = [Lit ''database'', whole_word (Lit ''sql'')]"
    | (tst) "tag = ''testing''" "patterns = [whole_word (Lit ''test'')]"
    | (dpl) "tag = ''deployment''" "patterns = [Lit ''deploy'', Lit ''docker'']"
    by (elim disjE) simp_all
  then show ?thesis
  proof cases
    case api
    with p show ?thesis
      unfolding mono_extract_tags_mem by (auto simp: re_search_Lit)
  next
    case http
    with p have "re_search (Alt (Lit ''get'') (Alt (Lit ''post'') (Alt (Lit ''put'')
           (Alt (Lit ''delete'') (Lit ''patch''))))) (lower content)"
      by (auto dest: re_search_whole_word)
    then show ?thesis
      unfolding mono_extract_tags_mem http by (auto simp: re_search_Lit re_search_Alt)
  next
    case pyd
    with p show ?thesis
      unfolding mono_extract_tags_mem by (auto simp: re_search_Lit)
  next
    case asy
    with p have "re_search (Lit ''async'') (lower content) \<or> re_search (Lit ''await'') (lower content)"
      by (auto dest: re_search_whole_word)
    then show ?thesis
      unfolding mono_extract_tags_mem asy by (auto simp: re_search_Lit)
  next
    case dep
    with p show ?thesis
      unfolding mono_extract_tags_mem by (auto simp: re_search_Lit)
  next
    case sec
    with p have "re_search (Lit ''security'') (lower content) \<or> re_search (Lit ''auth'') (lower content)"
      by (auto dest: re_search_whole_word)
    then show ?thesis
      unfolding mono_extract_tags_mem sec by (auto simp: re_search_Lit)
  next
    case dat
    with p have "re_search (Lit ''database'') (lower content) \<or> re_search (Lit ''sql'') (lower content)"
      by (auto dest: re_search_whole_word)
    then show ?thesis
      unfolding mono_extract_tags_mem dat by (auto simp: re_search_Lit)
  next
    case tst
    with p have "re_search (Lit ''test'') (lower content)"
      by (auto dest: re_search_whole_word)
    then show ?thesis
      unfolding mono_extract_tags_mem tst by (auto simp: re_search_Lit)
  next
    case dpl
    with p show ?thesis
      unfolding mono_extract_tags_mem by (auto simp: re_search_Lit)
  qed
qed

lemma files_agree:
  assumes "rel \<noteq> []"
  shows "map_sum id (map (\<lambda>c. (chunk_title c, chunk_content c, chunk_url c, chunk_section c,
              chunk_subsection c, chunk_embedding_text c)))
        (process_markdown_file read_elements (repo_path @ [''docs'', ''en''] @ rel)
           (FASTAPI_DOCS_URL @ ''/'' @ str_path (with_suffix_empty rel)))
     = map_sum id (map (\<lambda>c. (chunk_title c, chunk_content c, chunk_url c, chunk_section c,
              chunk_subsection c, chunk_embedding_text c)))
        (mono_process_markdown_file read_elements repo_path
           (repo_path @ [''docs'', ''en''] @ rel))"
proof (cases "read_elements (repo_path @ [''docs'', ''en''] @ rel)")
  case (Inl e)
  then show ?thesis
    by (simp add: process_markdown_file_def mono_process_markdown_file_def)
next
  case (Inr es)
  have r: "relative_to (repo_path @ [''docs'', ''en''] @ rel) (repo_path @ [''docs'', ''en''])
             = Inr rel"
    by (simp add: relative_to_def)
  have s: "stem (repo_path @ [''docs'', ''en''] @ rel) = stem rel"
    using stem_below [OF assms, of "repo_path @ [''docs'', ''en'']"] by simp
  show ?thesis
    using walks_agree [of walk_init walk_init rel
        "FASTAPI_DOCS_URL @ ''/'' @ str_path (with_suffix_empty rel)" es] Inr r s
    by (simp add: process_markdown_file_def mono_process_markdown_file_def
        process_elements_def Let_def)
qed

text \<open>
  The specification takes the tag extractor of the server entry point and the one of the
  components for the same function, and the two chunkers for the same chunker.  The first
  finds \<open>get\<close> inside \<open>target\<close>, the second asks for the whole word; and a file \<open>index.md\<close>
  gives the ids \<open>index.md#0\<close> and \<open>index#0\<close>.
\<close>

theorem pipelines_differ_counterexample:
  "extract_tags ''target'' '''' = []
   \<and> mono_extract_tags ''target'' '''' = [''http-methods'']
   \<and> set (mono_extract_tags ''target'' '''') \<noteq> set (extract_tags ''target'' '''')
   \<and> map_sum id (map chunk_id)
        (process_markdown_file
           (reader_of [] [Element P ''The quick brown fox jumps over the lazy dog, again.''])
           [''repo'', ''docs'', ''en'', ''index.md''] ''https://fastapi.tiangolo.com/index'')
      = Inr [''index#0'']
   \<and> map_sum id (map chunk_id)
        (mono_process_markdown_file
           (reader_of [] [Element P ''The quick brown fox jumps over the lazy dog, again.''])
           [''repo''] [''repo'', ''docs'', ''en'', ''index.md''])
      = Inr [''index.md#0'']"
proof -
  let ?t = "''The quick brown fox jumps over the lazy dog, again.''"
  have a: "extract_tags ''target'' '''' = []"
    by code_simp
  have b: "mono_extract_tags ''target'' '''' = [''http-methods'']"
    by code_simp
  have c: "set (mono_extract_tags ''target'' '''') \<noteq> set (extract_tags ''target'' '''')"
    unfolding a b by simp
  have len: "50 < length (strip ?t)"
    by (simp add: strip_def is_space_def)
  have s: "stem [''repo'', ''docs'', ''en'', ''index.md''] = ''index''"
    by code_simp
  have d: "map_sum id (map chunk_id)
        (process_markdown_file (reader_of [] [Element P ?t])
           [''repo'', ''docs'', ''en'', ''index.md''] ''https://fastapi.tiangolo.com/index'')
      = Inr [''index#0'']"
    by (simp add: process_markdown_file_def reader_of_def one_paragraph_file [OF len] s
        str_of_nat_0)
  have e: "map_sum id (map chunk_id)
        (mono_process_markdown_file (reader_of [] [Element P ?t])
           [''repo''] [''repo'', ''docs'', ''en'', ''index.md''])
      = Inr [''index.md#0'']"
    by (simp add: mono_process_markdown_file_def reader_of_def relative_to_def Let_def
        mono_one_paragraph_file [OF len] str_of_nat_0)
  show ?thesis
    by (intro conjI a b c d e)
qed

text \<open>
  Claim C9.  The two pipelines chunk alike and tag differently.  For a file below the
  documentation directory, with the url that the collector builds for it from the default
  address of the documentation, the two chunkers fail together, or give chunk sequences
  that agree, chunk by chunk, in title, content, url, section, subsection and embedding
  text.
  A chunk of the components has the id \<open><file stem>#<n>\<close> and the tags of \<open>extract_tags\<close>;
  the same chunk of the server entry point has the id \<open><path below docs/en>#<n>\<close> and the
  tags of \<open>_extract_tags\<close>.  Every tag that \<open>extract_tags\<close> finds in the content among the
  nine first tags of its table is a tag of \<open>_extract_tags\<close> too; \<open>_extract_tags\<close> gives no
  other tags than these nine and the lower-cased section with a hyphen for each space,
  which it adds for every section that is not empty, punctuation included.
\<close>

theorem pipelines_agree_except_ids_and_tags:
  "(rel \<noteq> [] \<longrightarrow>
      map_sum id (map (\<lambda>c. (chunk_title c, chunk_content c, chunk_url c, chunk_section c,
              chunk_subsection c, chunk_embedding_text c)))
        (process_markdown_file read_elements (repo_path @ [''docs'', ''en''] @ rel)
           (FASTAPI_DOCS_URL @ ''/'' @ str_path (with_suffix_empty rel)))
      = map_sum id (map (\<lambda>c. (chunk_title c, chunk_content c, chunk_url c, chunk_section c,
              chunk_subsection c, chunk_embedding_text c)))
        (mono_process_markdown_file read_elements repo_path
           (repo_path @ [''docs'', ''en''] @ rel)))
   \<and> (name e \<in> {P, PRE, UL, OL} \<and> 50 < length (strip (get_text e)) \<longrightarrow>
        (\<exists>c m. chunks (process_element fs url st e) = chunks st @ [c]
           \<and> chunks (mono_process_element rel url st e) = chunks st @ [m]
           \<and> chunk_id c = fs @ ''#'' @ str_of_nat (length (chunks st))
           \<and> chunk_id m = str_path rel @ ''#'' @ str_of_nat (length (chunks st))
           \<and> chunk_tags c = extract_tags (strip (get_text e)) (current_section st)
           \<and> chunk_tags m = mono_extract_tags (strip (get_text e)) (current_section st)))
   \<and> ((tag, patterns) \<in> set (take 9 tag_patterns)
        \<and> (\<exists>pattern \<in> set patterns. re_search pattern (lower content)) \<longrightarrow>
      tag \<in> set (mono_extract_tags content section))
   \<and> map fst (take 9 tag_patterns)
       = [''api'', ''http-methods'', ''pydantic'', ''async'', ''dependencies'', ''security'',
          ''database'', ''testing'', ''deployment'']
   \<and> (section \<noteq> [] \<longrightarrow>
        replace_space_hyphen (lower section) \<in> set (mono_extract_tags content section))
   \<and> set (mono_extract_tags content section)
       \<subseteq> set (map fst (take 9 tag_patterns)) \<union> {replace_space_hyphen (lower section)}
   \<and> distinct (mono_extract_tags content section)"
proof -
  have b: "name e \<in> {P, PRE, UL, OL} \<and> 50 < length (strip (get_text e)) \<longrightarrow>
        (\<exists>c m. chunks (process_element fs url st e) = chunks st @ [c]
           \<and> chunks (mono_process_element rel url st e) = chunks st @ [m]
           \<and> chunk_id c = fs @ ''#'' @ str_of_nat (length (chunks st))
           \<and> chunk_id m = str_path rel @ ''#'' @ str_of_nat (length (chunks st))
           \<and> chunk_tags c = extract_tags (strip (get_text e)) (current_section st)
           \<and> chunk_tags m = mono_extract_tags (strip (get_text e)) (current_section st))"
    by (auto simp: process_element_eq mono_process_element_eq)
  have n: "map fst (take 9 tag_patterns)
       = [''api'', ''http-methods'', ''pydantic'', ''async'', ''dependencies'', ''security'',
          ''database'', ''testing'', ''deployment'']"
    by (simp add: tag_patterns_def)
  have s: "section \<noteq> [] \<longrightarrow>
        replace_space_hyphen (lower section) \<in> set (mono_extract_tags content section)"
    by (simp add: mono_extract_tags_mem lower_empty)
  have f: "set (mono_extract_tags content section)
       \<subseteq> set (map fst (take 9 tag_patterns)) \<union> {replace_space_hyphen (lower section)}"
    unfolding n by (auto simp: mono_extract_tags_mem)
  have g: "distinct (mono_extract_tags content section)"
    by (simp add: mono_extract_tags_def Let_def list_set_def)
  show ?thesis
    using files_agree [of rel read_elements repo_path]
      shared_tags_included [of tag patterns content]
    by (intro conjI impI b n s f g) blast+
qed

theorem pipelines_agree_except_ids_and_tags_witness:
  "[''tutorial'', ''index.md''] \<noteq> []
   \<and> map_sum id (map (\<lambda>c. (chunk_title c, chunk_content c, chunk_url c, chunk_section c,
              chunk_subsection c, chunk_embedding_text c)))
        (process_markdown_file
           (reader_of [] [Element H1 ''Intro'',
              Element P ''The quick brown fox jumps over the lazy dog, again.''])
           ([''repo''] @ [''docs'', ''en''] @ [''tutorial'', ''index.md''])
           (FASTAPI_DOCS_URL @ ''/'' @ str_path (with_suffix_empty [''tutorial'', ''index.md''])))
      = map_sum id (map (\<lambda>c. (chunk_title c, chunk_content c, chunk_url c, chunk_section c,
              chunk_subsection c, chunk_embedding_text c)))
        (mono_process_markdown_file
           (reader_of [] [Element H1 ''Intro'',
              Element P ''The quick brown fox jumps over the lazy dog, again.''])
           [''repo''] ([''repo''] @ [''docs'', ''en''] @ [''tutorial'', ''index.md'']))
   \<and> name (Element P ''The quick brown fox jumps over the lazy dog, again.'') \<in> {P, PRE, UL, OL}
   \<and> 50 < length (strip (get_text
        (Element P ''The quick brown fox jumps over the lazy dog, again.'')))
   \<and> (\<exists>c m. chunks (process_element ''index'' ''u'' walk_init
                 (Element P ''The quick brown fox jumps over the lazy dog, again.'')) = [c]
           \<and> chunks (mono_process_element [''tutorial'', ''index.md''] ''u'' walk_init
                 (Element P ''The quick brown fox jumps over the lazy dog, again.'')) = [m]
           \<and> chunk_id c = ''index#0''
           \<and> chunk_id m = ''tutorial/index.md#0'')
   \<and> (''testing'', [whole_word (Lit ''test'')]) \<in> set (take 9 tag_patterns)
   \<and> re_search (whole_word (Lit ''test'')) (lower ''Run the test'')
   \<and> ''testing'' \<in> set (mono_extract_tags ''Run the test'' '''')
   \<and> ''Q&A'' \<noteq> []
   \<and> ''q&a'' \<in> set (mono_extract_tags '''' ''Q&A'')"
proof -
  let ?t = "''The quick brown fox jumps over the lazy dog, again.''"
  let ?rel = "[''tutorial'', ''index.md'']"
  let ?R = "reader_of [] [Element H1 ''Intro'', Element P ?t]"
  note t = pipelines_agree_except_ids_and_tags
  note t1 = t [THEN conjunct1]
  note t2 = t [THEN conjunct2, THEN conjunct1]
  note t3 = t [THEN conjunct2, THEN conjunct2, THEN conjunct1]
  note t5 = t [THEN conjunct2, THEN conjunct2, THEN conjunct2, THEN conjunct2, THEN conjunct1]
  have n: "?rel \<noteq> []"
    by simp
  have a: "map_sum id (map (\<lambda>c. (chunk_title c, chunk_content c, chunk_url c, chunk_section c,
              chunk_subsection c, chunk_embedding_text c)))
        (process_markdown_file ?R ([''repo''] @ [''docs'', ''en''] @ ?rel)
           (FASTAPI_DOCS_URL @ ''/'' @ str_path (with_suffix_empty ?rel)))
      = map_sum id (map (\<lambda>c. (chunk_title c, chunk_content c, chunk_url c, chunk_section c,
              chunk_subsection c, chunk_embedding_text c)))
        (mono_process_markdown_file ?R [''repo''] ([''repo''] @ [''docs'', ''en''] @ ?rel))"
    by (rule t1 [of ?rel ?R "[''repo'']", THEN mp]) (rule n)
  have e1: "name (Element P ?t) \<in> {P, PRE, UL, OL}"
    by simp
  have e2: "50 < length (strip (get_text (Element P ?t)))"
    by (simp add: strip_def is_space_def)
  have z: "str_of_nat 0 = ''0''"
    by code_simp
  have "\<exists>c m. chunks (process_element ''index'' ''u'' walk_init (Element P ?t))
               = chunks walk_init @ [c]
           \<and> chunks (mono_process_element ?rel ''u'' walk_init (Element P ?t))
               = chunks walk_init @ [m]
           \<and> chunk_id c = ''index'' @ ''#'' @ str_of_nat (length (chunks walk_init))
           \<and> chunk_id m = str_path ?rel @ ''#'' @ str_of_nat (length (chunks walk_init))
           \<and> chunk_tags c = extract_tags (strip (get_text (Element P ?t)))
                 (current_section walk_init)
           \<and> chunk_tags m = mono_extract_tags (strip (get_text (Element P ?t)))
                 (current_section walk_init)"
    by (rule t2 [of "Element P ?t" "''index''" "''u''" walk_init ?rel, THEN mp])
      (intro conjI e1 e2)
  then obtain c m where
    "chunks (process_element ''index'' ''u'' walk_init (Element P ?t)) = chunks walk_init @ [c]"
    "chunks (mono_process_element ?rel ''u'' walk_init (Element P ?t)) = chunks walk_init @ [m]"
    "chunk_id c = ''index'' @ ''#'' @ str_of_nat (length (chunks walk_init))"
    "chunk_id m = str_path ?rel @ ''#'' @ str_of_nat (length (chunks walk_init))"
    by blast
  then have "chunks (process_element ''index'' ''u'' walk_init (Element P ?t)) = [c]
           \<and> chunks (mono_process_element ?rel ''u'' walk_init (Element P ?t)) = [m]
           \<and> chunk_id c = ''index#0''
           \<and> chunk_id m = ''tutorial/index.md#0''"
    by (simp add: walk_init_def z)
  then have b: "\<exists>c m. chunks (process_element ''index'' ''u'' walk_init (Element P ?t)) = [c]
           \<and> chunks (mono_process_element ?rel ''u'' walk_init (Element P ?t)) = [m]
           \<and> chunk_id c = ''index#0''
           \<and> chunk_id m = ''tutorial/index.md#0''"
    by blast
  have m1: "(''testing'', [whole_word (Lit ''test'')]) \<in> set (take 9 tag_patterns)"
    by (simp add: tag_patterns_def)
  have m2: "re_search (whole_word (Lit ''test'')) (lower ''Run the test'')"
    by code_simp
  have m2': "\<exists>pattern \<in> set [whole_word (Lit ''test'')].
               re_search pattern (lower ''Run the test'')"
    using m2 by simp
  have m3: "''testing'' \<in> set (mono_extract_tags ''Run the test'' '''')"
    by (rule t3 [of "''testing''" "[whole_word (Lit ''test'')]" "''Run the test''" "''''",
          THEN mp])
      (intro conjI m1 m2')
  have q1: "''Q&A'' \<noteq> []"
    by simp
  have q2: "replace_space_hyphen (lower ''Q&A'') = ''q&a''"
    by code_simp
  have "replace_space_hyphen (lower ''Q&A'') \<in> set (mono_extract_tags '''' ''Q&A'')"
    by (rule t5 [of "''Q&A''" "''''", THEN mp]) (rule q1)
  then have q3: "''q&a'' \<in> set (mono_extract_tags '''' ''Q&A'')"
    unfolding q2 .
  show ?thesis
    by (intro conjI n a e1 e2 b m1 m2 m3 q1 q3)
qed

end
